theory Spec2Isabelle
  imports Main "HOL-Library.Sublist"
begin

text \<open>
  The Namespace provider of computesdk (\<open>src/packages/namespace/src/index.ts\<close>): credential
  resolution, the transport to the Namespace Compute API, the lifecycle operations
  \<open>create\<close>, \<open>getById\<close>, \<open>list\<close> and \<open>destroy\<close>, and \<open>runCommand\<close>. Each function of the
  source is a definition of the same name here; the line numbers are those of the source file.
\<close>

section \<open>JavaScript values\<close>

text \<open>
  The provider is TypeScript; its types are erased at run time and every value that is read
  out of a parsed JSON document (\<open>any\<close> in the source) can be whatever the document holds.
  Such values are modelled by \<open>jsval\<close>. Values supplied by the caller (the configuration,
  the options, the command string) keep their declared types, with \<open>option\<close> for an
  optional field. Strings are \<open>string\<close>; an object is the list of its own properties in
  enumeration order.

  A JavaScript number is represented by its decimal form, the string that \<open>String(n)\<close>
  gives: \<open>Number ''404''\<close>, \<open>Number ''0.5''\<close>, \<open>Number ''1e+21''\<close>. The program never
  calculates with a number it reads or is given: it tests it (zero, written \<open>0\<close> also when
  negative, and \<open>NaN\<close> are falsy), prints it and passes it on. The readings of the clock and
  the HTTP status, an integer between 0 and 999, are integers.
\<close>

datatype number = Number string

fun number_to_string :: "number \<Rightarrow> string" where
  "number_to_string (Number s) = s"

definition number_falsy :: "number \<Rightarrow> bool" where
  "number_falsy n = (n = Number ''0'' \<or> n = Number ''NaN'')"

datatype jsval =
    JUndefined
  | JNull
  | JBool bool
  | JNum number
  | JStr string
  | JArr "jsval list"
  | JObj "(string \<times> jsval) list"

text \<open>Truthiness, as tested by \<open>if (v)\<close>, \<open>!v\<close>, \<open>a || b\<close> and \<open>a && b\<close>.\<close>

fun truthy :: "jsval \<Rightarrow> bool" where
  "truthy JUndefined = False"
| "truthy JNull = False"
| "truthy (JBool b) = b"
| "truthy (JNum n) = (\<not> number_falsy n)"
| "truthy (JStr s) = (s \<noteq> [])"
| "truthy (JArr xs) = True"
| "truthy (JObj fs) = True"

text \<open>The values replaced by \<open>a ?? b\<close> and short-circuited by \<open>a?.k\<close>.\<close>

fun nullish :: "jsval \<Rightarrow> bool" where
  "nullish JUndefined = True"
| "nullish JNull = True"
| "nullish v = False"


text \<open>
  \<open>a || d\<close> where \<open>a\<close> is an optional string (\<open>undefined\<close>, or \<open>false\<close> from a guard,
  is \<open>None\<close>) and \<open>a || d\<close> where \<open>a\<close> is an optional number.
\<close>

definition string_or :: "string option \<Rightarrow> string \<Rightarrow> string" where
  "string_or a d = (case a of None \<Rightarrow> d | Some s \<Rightarrow> if s = [] then d else s)"

definition number_or :: "number option \<Rightarrow> number \<Rightarrow> number" where
  "number_or a d = (case a of None \<Rightarrow> d | Some n \<Rightarrow> if number_falsy n then d else n)"

text \<open>\<open>a ?? d\<close> where \<open>a\<close> is an optional string: only a missing value is replaced.\<close>

definition string_nullish_or :: "string option \<Rightarrow> string \<Rightarrow> string" where
  "string_nullish_or a d = (case a of None \<Rightarrow> d | Some s \<Rightarrow> s)"

subsection \<open>Conversion to string\<close>

text \<open>The decimal form of an integer (used for the HTTP status).\<close>

definition digit_char :: "nat \<Rightarrow> char" where
  "digit_char d = ''0123456789'' ! d"

fun nat_to_string :: "nat \<Rightarrow> string" where
  "nat_to_string n =
     (if n < 10 then [digit_char n] else nat_to_string (n div 10) @ [digit_char (n mod 10)])"

declare nat_to_string.simps [simp del]

definition int_to_string :: "int \<Rightarrow> string" where
  "int_to_string n = (if n < 0 then ''-'' @ nat_to_string (nat (- n)) else nat_to_string (nat n))"

fun join :: "string \<Rightarrow> string list \<Rightarrow> string" where
  "join sep [] = []"
| "join sep [x] = x"
| "join sep (x # y # ys) = x @ sep @ join sep (y # ys)"

text \<open>\<open>String(v)\<close> and \<open>`${v}`\<close>.\<close>

fun to_string :: "jsval \<Rightarrow> string" where
  "to_string JUndefined = ''undefined''"
| "to_string JNull = ''null''"
| "to_string (JBool b) = (if b then ''true'' else ''false'')"
| "to_string (JNum n) = number_to_string n"
| "to_string (JStr s) = s"
| "to_string (JArr xs) = join '','' (map (\<lambda>x. if nullish x then [] else to_string x) xs)"
| "to_string (JObj fs) = ''[object Object]''"

text \<open>\<open>s.includes(t)\<close>: \<open>t\<close> occurs in \<open>s\<close> as a contiguous substring.\<close>

fun str_includes :: "string \<Rightarrow> string \<Rightarrow> bool" where
  "str_includes [] t = (t = [])"
| "str_includes (c # cs) t = (prefix t (c # cs) \<or> str_includes cs t)"

subsection \<open>Thrown values\<close>

text \<open>
  \<open>Error m\<close> is an instance of \<open>Error\<close> (or of a subclass such as \<open>TypeError\<close>) with
  message \<open>m\<close>; \<open>Thrown v\<close> is any other thrown value. The source creates every error
  with \<open>new Error(message)\<close>: the failure kinds of the specification (ConfigurationError,
  TransportError, ApiError, LifecycleError, UnsupportedOperationError,
  CommandExecutionError) are the throw sites, told apart by their messages.
\<close>

datatype thrown = Error string | Thrown jsval

text \<open>\<open>error instanceof Error ? error.message : String(error)\<close>\<close>

fun message_of :: "thrown \<Rightarrow> string" where
  "message_of (Error m) = m"
| "message_of (Thrown v) = to_string v"

subsection \<open>Property reads\<close>

text \<open>
  Reading a property the program names (none of them is defined on a built-in prototype):
  an object yields its own property or \<open>undefined\<close>, any other non-nullish value yields
  \<open>undefined\<close>.
\<close>

fun own_prop :: "jsval \<Rightarrow> string \<Rightarrow> jsval" where
  "own_prop (JObj fs) k = (case map_of fs k of None \<Rightarrow> JUndefined | Some v \<Rightarrow> v)"
| "own_prop v k = JUndefined"

text \<open>\<open>v.k\<close>: a \<open>TypeError\<close> on \<open>null\<close> and \<open>undefined\<close>.\<close>

definition get_prop :: "jsval \<Rightarrow> string \<Rightarrow> thrown + jsval" where
  "get_prop v k =
     (if nullish v
      then Inl (Error (''Cannot read properties of '' @ to_string v @ '' (reading '' @ [CHR 0x27] @ k @ [CHR 0x27] @ '')''))
      else Inr (own_prop v k))"

text \<open>\<open>v?.k\<close>\<close>

definition opt_prop :: "jsval \<Rightarrow> string \<Rightarrow> jsval" where
  "opt_prop v k = (if nullish v then JUndefined else own_prop v k)"

section \<open>Effects\<close>

text \<open>
  A computation returns a value or throws, and leaves a trace of what it did to the
  outside: files read, requests sent, warnings logged.
\<close>

text \<open>
  \<open>RequestInit\<close> holds the options of a request; a \<open>request\<close> is what \<open>fetch\<close> receives:
  the options and the address.
\<close>

record RequestInit =
  http_method :: "string option"
  headers :: "(string \<times> string) list"
  body :: "string option"

record request = RequestInit +
  url :: string

record response =
  ok :: bool
  status :: int
  statusText :: string
  json :: "thrown + jsval"

datatype effect = ReadFile string | Fetch request | Warn string

type_synonym 'a io = "(thrown + 'a) \<times> effect list"

definition io_return :: "'a \<Rightarrow> 'a io" where
  "io_return x = (Inr x, [])"

definition io_throw :: "thrown \<Rightarrow> 'a io" where
  "io_throw e = (Inl e, [])"

definition io_lift :: "thrown + 'a \<Rightarrow> 'a io" where
  "io_lift r = (r, [])"

definition io_bind :: "'a io \<Rightarrow> ('a \<Rightarrow> 'b io) \<Rightarrow> 'b io" where
  "io_bind m f =
     (case fst m of
        Inl e \<Rightarrow> (Inl e, snd m)
      | Inr x \<Rightarrow> (fst (f x), snd m @ snd (f x)))"

text \<open>\<open>try { m } catch (error) { h error }\<close>\<close>

definition io_catch :: "'a io \<Rightarrow> (thrown \<Rightarrow> 'a io) \<Rightarrow> 'a io" where
  "io_catch m h =
     (case fst m of
        Inl e \<Rightarrow> (fst (h e), snd m @ snd (h e))
      | Inr x \<Rightarrow> m)"

text \<open>Pure code that may throw (the callbacks of \<open>filter\<close> and \<open>map\<close>).\<close>

definition try_bind :: "thrown + 'a \<Rightarrow> ('a \<Rightarrow> thrown + 'b) \<Rightarrow> thrown + 'b" where
  "try_bind r f = (case r of Inl e \<Rightarrow> Inl e | Inr x \<Rightarrow> f x)"



definition console_warn :: "string \<Rightarrow> unit io" where
  "console_warn msg = (Inr (), [Warn msg])"

section \<open>The environment of a call\<close>

text \<open>
  Everything the module takes from outside itself. \<open>process_env\<close> is \<open>None\<close> when there is
  no \<open>process\<close> (or no \<open>process.env\<close>). \<open>Date_now k\<close> is what the \<open>k\<close>-th reading of the
  clock during the call returns. \<open>escapeShellArg\<close> is imported from the provider framework.
  \<open>Buffer_from_nonstring\<close> is \<open>Buffer.from(v, 'base64').toString()\<close> for a \<open>v\<close> that is not
  a string, and \<open>utf8_decode\<close> is \<open>toString()\<close> of a buffer that holds a byte above 127.
\<close>

record world =
  process_env :: "(string \<rightharpoonup> string) option"
  readFile :: "string \<Rightarrow> thrown + string"
  JSON_parse :: "string \<Rightarrow> thrown + jsval"
  JSON_stringify :: "jsval \<Rightarrow> nat \<Rightarrow> string"
  fetch :: "request \<Rightarrow> thrown + response"
  Date_now :: "nat \<Rightarrow> int"
  toISOString :: "int \<Rightarrow> string"
  escapeShellArg :: "string \<Rightarrow> string"
  Buffer_from_nonstring :: "jsval \<Rightarrow> thrown + string"
  utf8_decode :: "nat list \<Rightarrow> string"

definition fs_readFile :: "world \<Rightarrow> string \<Rightarrow> string io" where
  "fs_readFile w filePath = (readFile w filePath, [ReadFile filePath])"

definition io_fetch :: "world \<Rightarrow> request \<Rightarrow> response io" where
  "io_fetch w req = (fetch w req, [Fetch req])"

text \<open>\<open>typeof process !== 'undefined' && process.env?.NAME\<close>\<close>

definition env_var :: "world \<Rightarrow> string \<Rightarrow> string option" where
  "env_var w k = (case process_env w of None \<Rightarrow> None | Some e \<Rightarrow> e k)"

section \<open>Data model\<close>

text \<open>
  \<open>Date_at t\<close> is the date with time value \<open>t\<close>: \<open>new Date()\<close> at the clock's reading \<open>t\<close>, and
  \<open>new Date(0)\<close>. \<open>Date_of v\<close> is \<open>new Date(v)\<close> for a value \<open>v\<close> taken from a payload.
\<close>

datatype Date = Date_at int | Date_of jsval

record NamespaceSandbox =
  instanceId :: jsval
  name :: string
  commandServiceEndpoint :: jsval
  token :: jsval
  targetContainerName :: string
  createdAt :: Date

record NamespaceConfig =
  token :: "string option"
  tokenFile :: "string option"
  virtualCpu :: "number option"
  memoryMegabytes :: "number option"
  machineArch :: "string option"
  os :: "string option"
  documentedPurpose :: "string option"
  destroyReason :: "string option"
  targetContainerName :: "string option"

definition CREATE_INSTANCE :: string where
  "CREATE_INSTANCE = ''/namespace.cloud.compute.v1beta.ComputeService/CreateInstance''"

definition DESCRIBE_INSTANCE :: string where
  "DESCRIBE_INSTANCE = ''/namespace.cloud.compute.v1beta.ComputeService/DescribeInstance''"


definition DESTROY_INSTANCE :: string where
  "DESTROY_INSTANCE = ''/namespace.cloud.compute.v1beta.ComputeService/DestroyInstance''"

definition RUN_COMMAND_SYNC :: string where
  "RUN_COMMAND_SYNC = ''/namespace.cloud.compute.v1beta.CommandService/RunCommandSync''"

section \<open>Credential resolution\<close>

text \<open>
  \<open>loadTokenFromFile\<close> (lines 62 to 69) and \<open>getAndValidateCredentials\<close> (lines 78 to 97).
  The latter returns the object \<open>{ token }\<close>, which every caller takes apart at once: the
  definition returns the token.
\<close>

definition loadTokenFromFile :: "world \<Rightarrow> string \<Rightarrow> jsval io" where
  "loadTokenFromFile w filePath =
     io_bind (fs_readFile w filePath) (\<lambda>content.
     io_bind (io_lift (JSON_parse w content)) (\<lambda>tokenJson.
     io_bind (io_lift (get_prop tokenJson ''bearer_token'')) (\<lambda>bearer_token.
       if \<not> truthy bearer_token
       then io_throw (Error (''Token file '' @ filePath @ '' does not contain a bearer_token''))
       else io_return bearer_token)))"

definition getAndValidateCredentials :: "world \<Rightarrow> NamespaceConfig \<Rightarrow> jsval io" where
  "getAndValidateCredentials w config =
     (let token = string_or (NamespaceConfig.token config) (string_or (env_var w ''NSC_TOKEN'') [])
      in io_bind
           (if token = []
            then (let tokenFile = string_or (tokenFile config) (string_or (env_var w ''NSC_TOKEN_FILE'') [])
                  in if tokenFile \<noteq> [] then loadTokenFromFile w tokenFile else io_return (JStr token))
            else io_return (JStr token))
           (\<lambda>token.
              if \<not> truthy token
              then io_throw (Error ''Missing Namespace token. Provide token in config, set NSC_TOKEN, or set NSC_TOKEN_FILE environment variable (or provide tokenFile in config).'')
              else io_return token))"

section \<open>Transport\<close>

text \<open>\<open>handleApiErrors\<close> (lines 99 to 103) and \<open>fetchNamespace\<close> (lines 105 to 130).\<close>

definition handleApiErrors :: "jsval \<Rightarrow> thrown + unit" where
  "handleApiErrors response =
     try_bind (get_prop response ''error'') (\<lambda>error.
       if truthy error then Inl (Error (''Namespace API error: '' @ to_string error)) else Inr ())"

text \<open>
  \<open>{ ...a, k: v }\<close> and \<open>{ ...a, ...b }\<close> on the property lists of objects, for property names
  that are not array indices (JavaScript enumerates those first); the module passes no
  headers of its own to \<open>fetchNamespace\<close>.
\<close>

fun set_prop :: "string \<Rightarrow> 'v \<Rightarrow> (string \<times> 'v) list \<Rightarrow> (string \<times> 'v) list" where
  "set_prop k v [] = [(k, v)]"
| "set_prop k v ((k', v') # fs) = (if k' = k then (k, v) # fs else (k', v') # set_prop k v fs)"

definition spread :: "(string \<times> 'v) list \<Rightarrow> (string \<times> 'v) list \<Rightarrow> (string \<times> 'v) list" where
  "spread a b = fold (\<lambda>(k, v). set_prop k v) b a"

text \<open>
  The request \<open>fetchNamespace\<close> hands to \<open>fetch\<close>. The parameter \<open>baseUrl\<close> takes its
  default when the argument is \<open>undefined\<close>.
\<close>

definition fetchNamespace_request :: "jsval \<Rightarrow> string \<Rightarrow> RequestInit \<Rightarrow> jsval \<Rightarrow> request" where
  "fetchNamespace_request token' endpoint options baseUrl =
     (let baseUrl = (if baseUrl = JUndefined then JStr ''https://us.compute.namespaceapis.com'' else baseUrl)
      in \<lparr>http_method = http_method options,
          headers = spread [(''Content-Type'', ''application/json''),
                            (''Authorization'', ''Bearer '' @ to_string token')]
                           (headers options),
          body = body options,
          url = to_string baseUrl @ endpoint\<rparr>)"

definition fetchNamespace :: "world \<Rightarrow> jsval \<Rightarrow> string \<Rightarrow> RequestInit \<Rightarrow> jsval \<Rightarrow> jsval io" where
  "fetchNamespace w token' endpoint options baseUrl =
     io_bind (io_fetch w (fetchNamespace_request token' endpoint options baseUrl)) (\<lambda>response.
       if \<not> ok response
       then io_throw (Error (''Namespace API error: '' @ int_to_string (status response) @ '' '' @ statusText response))
       else io_bind (io_lift (json response)) (\<lambda>data.
            io_bind (io_lift (handleApiErrors data)) (\<lambda>_. io_return data)))"

text \<open>\<open>{ method: 'POST', body: JSON.stringify(v) }\<close>\<close>

definition post :: "world \<Rightarrow> jsval \<Rightarrow> RequestInit" where
  "post w v = \<lparr>http_method = Some ''POST'', headers = [], body = Some (JSON_stringify w v 0)\<rparr>"

section \<open>Lifecycle\<close>

record sandbox_result =
  sandbox :: NamespaceSandbox
  sandboxId :: jsval

record CreateSandboxOptions =
  image' :: "string option"
  envs :: "(string \<times> string) list option"

subsection \<open>create\<close>

text \<open>
  Lines 143 to 198. \<open>create_requestBody\<close> is the constant \<open>requestBody\<close> of lines 148 to 165;
  the first reading of the clock gives the deadline, the second one \<open>createdAt\<close>.
\<close>

definition create_requestBody ::
  "world \<Rightarrow> NamespaceConfig \<Rightarrow> CreateSandboxOptions option \<Rightarrow> string \<Rightarrow> jsval" where
  "create_requestBody w config options containerName =
     JObj
       [(''shape'', JObj
           [(''virtual_cpu'', JNum (number_or (virtualCpu config) (Number ''2''))),
            (''memory_megabytes'', JNum (number_or (memoryMegabytes config) (Number ''4096''))),
            (''machine_arch'', JStr (string_or (machineArch config) ''amd64'')),
            (''os'', JStr (string_or (os config) ''linux''))]),
        (''containers'', JArr
           [JObj
              ([(''name'', JStr containerName),
                (''image_ref'', JStr (string_nullish_or (Option.bind options image') ''ubuntu:latest'')),
                (''args'', JArr [JStr ''sleep'', JStr ''infinity''])]
               @ (case Option.bind options envs of
                    None \<Rightarrow> []
                  | Some es \<Rightarrow> if length es > 0 then [(''environment'', JObj (map (\<lambda>(k, v). (k, JStr v)) es))] else []))]),
        (''documented_purpose'', JStr (string_or (documentedPurpose config) ''ComputeSDK sandbox'')),
        (''deadline'', JStr (toISOString w (Date_now w 0 + 60 * 60 * 1000)))]"

text \<open>
  The body of the \<open>try\<close> block. A property read several times in the source is read once
  here and the value used at each occurrence.
\<close>

definition create_try ::
  "world \<Rightarrow> NamespaceConfig \<Rightarrow> CreateSandboxOptions option \<Rightarrow> jsval \<Rightarrow> string \<Rightarrow> sandbox_result io" where
  "create_try w config options token' containerName =
     io_bind (fetchNamespace w token' CREATE_INSTANCE
                (post w (create_requestBody w config options containerName)) JUndefined) (\<lambda>responseData.
     io_bind (io_lift (get_prop responseData ''metadata'')) (\<lambda>metadata.
       if \<not> truthy (opt_prop metadata ''instanceId'')
       then io_throw (Error (''Instance ID is undefined. Full response object: '' @ JSON_stringify w responseData 2))
       else
         io_bind (io_lift (get_prop metadata ''instanceId'')) (\<lambda>instanceId.
         io_bind (io_lift (get_prop responseData ''extendedMetadata'')) (\<lambda>extendedMetadata.
           io_return
             \<lparr>sandbox =
                \<lparr>instanceId = instanceId,
                 name = ''instance-'' @ to_string instanceId,
                 commandServiceEndpoint = opt_prop extendedMetadata ''commandServiceEndpoint'',
                 token = token',
                 targetContainerName = containerName,
                 createdAt = Date_at (Date_now w 1)\<rparr>,
              sandboxId = instanceId\<rparr>))))"

definition create :: "world \<Rightarrow> NamespaceConfig \<Rightarrow> CreateSandboxOptions option \<Rightarrow> sandbox_result io" where
  "create w config options =
     io_bind (getAndValidateCredentials w config) (\<lambda>token.
       let containerName = string_or (NamespaceConfig.targetContainerName config) ''main-container''
       in io_catch (create_try w config options token containerName) (\<lambda>error.
            io_throw (Error (''Failed to create Namespace instance: '' @ message_of error))))"

subsection \<open>getById\<close>

text \<open>Lines 200 to 240; \<open>getById_try\<close> is the body of the \<open>try\<close> block, \<open>null\<close> is \<open>None\<close>.\<close>

definition getById_try :: "world \<Rightarrow> NamespaceConfig \<Rightarrow> jsval \<Rightarrow> string \<Rightarrow> sandbox_result option io" where
  "getById_try w config token' sandboxId' =
     io_bind (fetchNamespace w token' DESCRIBE_INSTANCE
                (post w (JObj [(''instance_id'', JStr sandboxId')])) JUndefined) (\<lambda>responseData.
     io_bind (io_lift (get_prop responseData ''metadata'')) (\<lambda>metadata.
       if \<not> truthy (opt_prop metadata ''instanceId'')
       then io_throw (Error ''Instance data is missing from Namespace response'')
       else
         io_bind (io_lift (get_prop metadata ''instanceId'')) (\<lambda>instanceId.
         io_bind (io_lift (get_prop responseData ''extendedMetadata'')) (\<lambda>extendedMetadata.
           io_return (Some
             \<lparr>sandbox =
                \<lparr>instanceId = instanceId,
                 name = ''instance-'' @ to_string instanceId,
                 commandServiceEndpoint = opt_prop extendedMetadata ''commandServiceEndpoint'',
                 token = token',
                 targetContainerName = string_or (NamespaceConfig.targetContainerName config) ''main-container'',
                 createdAt = (if truthy (opt_prop metadata ''createdAt'')
                              then Date_of (opt_prop metadata ''createdAt'') else Date_at 0)\<rparr>,
              sandboxId = instanceId\<rparr>)))))"

text \<open>\<open>error instanceof Error && error.message.includes('404')\<close>\<close>

fun is_404 :: "thrown \<Rightarrow> bool" where
  "is_404 (Error m) = str_includes m ''404''"
| "is_404 (Thrown v) = False"

definition getById :: "world \<Rightarrow> NamespaceConfig \<Rightarrow> string \<Rightarrow> sandbox_result option io" where
  "getById w config sandboxId' =
     io_bind (getAndValidateCredentials w config) (\<lambda>token.
       io_catch (getById_try w config token sandboxId') (\<lambda>error.
         if is_404 error then io_return None
         else io_throw (Error (''Failed to get Namespace instance: '' @ message_of error))))"

subsection \<open>list\<close>

text \<open>Lines 242 to 280.\<close>





subsection \<open>destroy\<close>

text \<open>Lines 282 to 303. \<open>destroy_requestBody\<close> is the object given to \<open>JSON.stringify\<close>.\<close>

definition destroy_requestBody :: "NamespaceConfig \<Rightarrow> string \<Rightarrow> jsval" where
  "destroy_requestBody config sandboxId' =
     JObj [(''instance_id'', JStr sandboxId'),
           (''reason'', JStr (string_or (destroyReason config) ''ComputeSDK cleanup''))]"

definition destroy_try :: "world \<Rightarrow> NamespaceConfig \<Rightarrow> jsval \<Rightarrow> string \<Rightarrow> unit io" where
  "destroy_try w config token' sandboxId' =
     io_bind (fetchNamespace w token' DESTROY_INSTANCE
                (post w (destroy_requestBody config sandboxId')) JUndefined) (\<lambda>data.
     io_bind (io_lift (get_prop data ''error'')) (\<lambda>error.
       if truthy error then console_warn (''Namespace destroy warning: '' @ to_string error)
       else io_return ()))"

definition destroy :: "world \<Rightarrow> NamespaceConfig \<Rightarrow> string \<Rightarrow> unit io" where
  "destroy w config sandboxId' =
     io_bind (getAndValidateCredentials w config) (\<lambda>token.
       io_catch (destroy_try w config token sandboxId') (\<lambda>error.
         console_warn (''Namespace destroy warning: '' @ message_of error)))"

section \<open>Command execution\<close>

record RunCommandOptions =
  env :: "(string \<times> string) list option"
  cwd :: "string option"
  background :: "bool option"

record CommandResult =
  stdout :: jsval
  stderr :: jsval
  exitCode :: jsval
  durationMs :: int

text \<open>
  \<open>runCommand\<close>, lines 306 to 381. \<open>compose_command\<close> is the command line built from the
  options in lines 315 to 333; \<open>env\<close> is the list \<open>Object.entries\<close> yields.
\<close>

definition compose_command :: "world \<Rightarrow> string \<Rightarrow> RunCommandOptions option \<Rightarrow> string" where
  "compose_command w command options =
     (let fullCommand = command;
          fullCommand =
            (case Option.bind options env of
               None \<Rightarrow> fullCommand
             | Some entries \<Rightarrow>
                 if length entries > 0
                 then (let envPrefix = join '' '' (map (\<lambda>(k, v). k @ ''='' @ escapeShellArg w v) entries)
                       in envPrefix @ '' '' @ fullCommand)
                 else fullCommand);
          fullCommand =
            (case Option.bind options cwd of
               None \<Rightarrow> fullCommand
             | Some dir \<Rightarrow>
                 if dir \<noteq> []
                 then ''cd '' @ escapeShellArg w dir @ '' && '' @ fullCommand
                 else fullCommand);
          fullCommand =
            (if Option.bind options background = Some True
             then ''nohup '' @ fullCommand @ '' > /dev/null 2>&1 &''
             else fullCommand)
      in fullCommand)"

subsection \<open>Base64 decoding by the platform\<close>

text \<open>
  \<open>decodeBase64\<close> (lines 357 to 364) calls \<open>Buffer.from(data, 'base64').toString()\<close> of
  Node.js. On a string, \<open>Buffer.from\<close> does not validate its input: characters outside the
  base64 alphabets (standard and URL-safe) are skipped, decoding stops at the first \<open>=\<close>,
  and bits that do not fill a byte are dropped. It does not throw.
\<close>

definition base64_alphabet :: string where
  "base64_alphabet = ''ABCDEFGHIJKLMNOPQRSTUVWXYZabcdefghijklmnopqrstuvwxyz0123456789+/''"

fun index_of :: "'a \<Rightarrow> 'a list \<Rightarrow> nat option" where
  "index_of c [] = None"
| "index_of c (x # xs) = (if x = c then Some 0 else map_option Suc (index_of c xs))"

definition unbase64 :: "char \<Rightarrow> nat option" where
  "unbase64 c =
     (if c = CHR ''-'' then Some 62 else if c = CHR ''_'' then Some 63
      else index_of c base64_alphabet)"

fun base64_sextets :: "string \<Rightarrow> nat list" where
  "base64_sextets [] = []"
| "base64_sextets (c # cs) =
     (if c = CHR ''='' then []
      else case unbase64 c of
             None \<Rightarrow> base64_sextets cs
           | Some v \<Rightarrow> v # base64_sextets cs)"

fun sextets_to_bytes :: "nat list \<Rightarrow> nat list" where
  "sextets_to_bytes (a # b # c # d # rest) =
     (a * 4 + b div 16) # ((b mod 16) * 16 + c div 4) # ((c mod 4) * 64 + d) # sextets_to_bytes rest"
| "sextets_to_bytes [a, b, c] = [a * 4 + b div 16, (b mod 16) * 16 + c div 4]"
| "sextets_to_bytes [a, b] = [a * 4 + b div 16]"
| "sextets_to_bytes [a] = []"
| "sextets_to_bytes [] = []"

definition Buffer_from_base64 :: "string \<Rightarrow> nat list" where
  "Buffer_from_base64 s = sextets_to_bytes (base64_sextets s)"

text \<open>\<open>buffer.toString()\<close>: UTF-8 decoding, the identity on bytes below 128.\<close>

definition Buffer_toString :: "world \<Rightarrow> nat list \<Rightarrow> string" where
  "Buffer_toString w bytes =
     (if list_all (\<lambda>b. b < 128) bytes then map char_of bytes else utf8_decode w bytes)"

definition decodeBase64 :: "world \<Rightarrow> jsval \<Rightarrow> jsval" where
  "decodeBase64 w data =
     (if \<not> truthy data then JStr []
      else case (case data of
                   JStr s \<Rightarrow> Inr (Buffer_toString w (Buffer_from_base64 s))
                 | _ \<Rightarrow> Buffer_from_nonstring w data) of
             Inr decoded \<Rightarrow> JStr decoded
           | Inl _ \<Rightarrow> data)"

subsection \<open>runCommand\<close>

text \<open>
  \<open>runCommand_requestBody\<close> is the object given to \<open>JSON.stringify\<close> in lines 341 to 347,
  \<open>runCommand_try\<close> the body of the \<open>try\<close> block.
\<close>

definition runCommand_requestBody :: "NamespaceSandbox \<Rightarrow> string \<Rightarrow> jsval" where
  "runCommand_requestBody sandbox' fullCommand =
     JObj
       [(''instanceId'', instanceId sandbox'),
        (''targetContainerName'', JStr (NamespaceSandbox.targetContainerName sandbox')),
        (''command'', JObj [(''command'', JArr [JStr ''sh'', JStr ''-c'', JStr fullCommand])])]"

definition runCommand_try ::
  "world \<Rightarrow> NamespaceSandbox \<Rightarrow> string \<Rightarrow> RunCommandOptions option \<Rightarrow> int \<Rightarrow> CommandResult io" where
  "runCommand_try w sandbox' command options startTime =
     (let fullCommand = compose_command w command options
      in io_bind
           (fetchNamespace w (NamespaceSandbox.token sandbox') RUN_COMMAND_SYNC
              (post w (runCommand_requestBody sandbox' fullCommand))
              (commandServiceEndpoint sandbox'))
           (\<lambda>result.
              io_bind (io_lift (get_prop result ''stdout'')) (\<lambda>out.
              io_bind (io_lift (get_prop result ''stderr'')) (\<lambda>err.
              io_bind (io_lift (get_prop result ''exitCode'')) (\<lambda>code.
                io_return
                  \<lparr>stdout = decodeBase64 w out,
                   stderr = decodeBase64 w err,
                   exitCode = (if nullish code then JNum (Number ''0'') else code),
                   durationMs = Date_now w 1 - startTime\<rparr>)))))"

definition runCommand ::
  "world \<Rightarrow> NamespaceSandbox \<Rightarrow> string \<Rightarrow> RunCommandOptions option \<Rightarrow> CommandResult io" where
  "runCommand w sandbox' command options =
     (if \<not> truthy (commandServiceEndpoint sandbox')
      then io_throw (Error ''Command service endpoint not available. The instance may not support command execution.'')
      else
        let startTime = Date_now w 0
        in io_catch (runCommand_try w sandbox' command options startTime) (\<lambda>error.
             io_throw (Error (''Namespace command execution failed: '' @ message_of error))))"

subsection \<open>Unsupported operations\<close>

text \<open>\<open>runCode\<close> (lines 384 to 386) and \<open>getUrl\<close> (lines 404 to 406).\<close>

definition runCode :: "NamespaceSandbox \<Rightarrow> string \<Rightarrow> 'runtime option \<Rightarrow> NamespaceConfig option \<Rightarrow> 'result io" where
  "runCode sandbox' code runtime config =
     io_throw (Error ''Namespace provider does not support runCode. Use runCommand instead.'')"

record getUrl_options =
  port :: number
  protocol :: "string option"

definition getUrl :: "NamespaceSandbox \<Rightarrow> getUrl_options \<Rightarrow> string io" where
  "getUrl sandbox' options = io_throw (Error ''Namespace provider does not support getUrl.'')"

section \<open>Notions used to state the properties\<close>

text \<open>\<open>v[i]\<close> on an array.\<close>

fun elem :: "jsval \<Rightarrow> nat \<Rightarrow> jsval" where
  "elem (JArr xs) i = (if i < length xs then xs ! i else JUndefined)"
| "elem v i = JUndefined"

text \<open>
  \<open>in_order [t1, ..., tn] s\<close>: the strings \<open>t1\<close>, ..., \<open>tn\<close> occur in \<open>s\<close> one after the
  other, without overlap. \<open>occurs_in_order\<close> decides it, taking the leftmost occurrence
  of each.
\<close>

fun in_order :: "string list \<Rightarrow> string \<Rightarrow> bool" where
  "in_order [] s = True"
| "in_order (t # ts) s = (\<exists>a b. s = a @ t @ b \<and> in_order ts b)"

fun after_first :: "string \<Rightarrow> string \<Rightarrow> string option" where
  "after_first t [] = (if t = [] then Some [] else None)"
| "after_first t (c # cs) =
     (if prefix t (c # cs) then Some (drop (length t) (c # cs)) else after_first t cs)"

fun occurs_in_order :: "string list \<Rightarrow> string \<Rightarrow> bool" where
  "occurs_in_order [] s = True"
| "occurs_in_order (t # ts) s =
     (case after_first t s of None \<Rightarrow> False | Some rest \<Rightarrow> occurs_in_order ts rest)"




section \<open>Example environments\<close>

text \<open>
  Concrete configurations and environments, at which the hypotheses of the theorems below
  are shown to be satisfiable. \<open>world_offline\<close> has no environment variables, no files and
  no network; \<open>world_answering r\<close> answers every request with the response \<open>r\<close>;
  \<open>world_token_file content parsed\<close> has one file, \<open>/home/user/token.json\<close>, whose text
  \<open>content\<close> parses to \<open>parsed\<close>.
\<close>

definition config_empty :: NamespaceConfig where
  "config_empty =
     \<lparr>token = None, tokenFile = None, virtualCpu = None, memoryMegabytes = None,
      machineArch = None, os = None, documentedPurpose = None, destroyReason = None,
      targetContainerName = None\<rparr>"

definition config_token :: NamespaceConfig where
  "config_token = config_empty\<lparr>NamespaceConfig.token := Some ''secret''\<rparr>"

definition world_offline :: world where
  "world_offline =
     \<lparr>process_env = None,
      readFile = (\<lambda>path. Inl (Error ''ENOENT: no such file or directory'')),
      JSON_parse = (\<lambda>content. Inl (Error ''Unexpected end of JSON input'')),
      JSON_stringify = (\<lambda>v indent. to_string v),
      fetch = (\<lambda>req. Inl (Error ''fetch failed'')),
      Date_now = (\<lambda>k. 0),
      toISOString = (\<lambda>t. if t = 3600000 then ''1970-01-01T01:00:00.000Z'' else ''1970-01-01T00:00:00.000Z''),
      escapeShellArg = (\<lambda>arg. arg),
      Buffer_from_nonstring = (\<lambda>v. Inl (Error ''The first argument must be of type string'')),
      utf8_decode = (\<lambda>bytes. [])\<rparr>"

definition ok_response :: "jsval \<Rightarrow> response" where
  "ok_response payload = \<lparr>ok = True, status = 200, statusText = ''OK'', json = Inr payload\<rparr>"

definition world_answering :: "response \<Rightarrow> world" where
  "world_answering r = world_offline\<lparr>fetch := (\<lambda>req. Inr r)\<rparr>"

definition token_file_text :: string where
  \<open>token_file_text = ''{"bearer_token":"abc"}''\<close>

definition world_token_file :: "string \<Rightarrow> jsval \<Rightarrow> world" where
  "world_token_file content parsed =
     world_offline
       \<lparr>readFile := (\<lambda>path. if path = ''/home/user/token.json'' then Inr content
                             else Inl (Error ''ENOENT: no such file or directory'')),
        JSON_parse := (\<lambda>s. if s = content then Inr parsed else Inl (Error ''Unexpected token''))\<rparr>"

definition sandbox_example :: NamespaceSandbox where
  "sandbox_example =
     \<lparr>instanceId = JStr ''i-1'', name = ''instance-i-1'',
      commandServiceEndpoint = JStr ''https://cmd.example'', token = JStr ''secret'',
      targetContainerName = ''main-container'', createdAt = Date_at 0\<rparr>"


section \<open>Properties of strings\<close>

lemma str_includes_iff: "str_includes s t \<longleftrightarrow> (\<exists>a b. s = a @ t @ b)"
proof (induction s)
  case Nil
  then show ?case by auto
next
  case (Cons c cs)
  show ?case
  proof
    assume "str_includes (c # cs) t"
    then consider "prefix t (c # cs)" | "str_includes cs t" by auto
    then show "\<exists>a b. c # cs = a @ t @ b"
    proof cases
      case 1
      then obtain b where "c # cs = t @ b" by (auto simp: prefix_def)
      then have "c # cs = [] @ t @ b" by simp
      then show ?thesis by blast
    next
      case 2
      with Cons.IH obtain a b where "cs = a @ t @ b" by blast
      then have "c # cs = (c # a) @ t @ b" by simp
      then show ?thesis by blast
    qed
  next
    assume "\<exists>a b. c # cs = a @ t @ b"
    then obtain a b where ab: "c # cs = a @ t @ b" by blast
    show "str_includes (c # cs) t"
    proof (cases a)
      case Nil
      with ab have "prefix t (c # cs)" by (simp add: prefix_def)
      then show ?thesis by simp
    next
      case (Cons a0 as)
      with ab have "cs = as @ t @ b" by simp
      with Cons.IH have "str_includes cs t" by blast
      then show ?thesis by simp
    qed
  qed
qed

lemma after_first_sound: "after_first t s = Some r \<Longrightarrow> \<exists>a. s = a @ t @ r"
proof (induction s)
  case Nil
  then show ?case by (auto split: if_splits)
next
  case (Cons c cs)
  show ?case
  proof (cases "prefix t (c # cs)")
    case True
    with Cons.prems have "r = drop (length t) (c # cs)" by simp
    moreover from True have "c # cs = t @ drop (length t) (c # cs)"
      by (metis append_eq_conv_conj prefix_def)
    ultimately have "c # cs = [] @ t @ r" by simp
    then show ?thesis by blast
  next
    case False
    with Cons.prems have "after_first t cs = Some r" by simp
    with Cons.IH obtain a where "cs = a @ t @ r" by blast
    then have "c # cs = (c # a) @ t @ r" by simp
    then show ?thesis by blast
  qed
qed

lemma after_first_complete: "s = a @ t @ b \<Longrightarrow> \<exists>r p. after_first t s = Some r \<and> r = p @ b"
proof (induction s arbitrary: a)
  case Nil
  then show ?case by simp
next
  case (Cons c cs)
  show ?case
  proof (cases "prefix t (c # cs)")
    case True
    then obtain q where q: "c # cs = t @ q" by (auto simp: prefix_def)
    have "length (a @ t @ b) = length (t @ q)" using Cons.prems q by simp
    then have "length q = length a + length b" by simp
    moreover have "suffix b (c # cs)" using Cons.prems by (simp add: suffix_def)
    moreover have "suffix q (c # cs)" using q by (simp add: suffix_def)
    ultimately have "suffix b q"
      by (metis le_add2 suffix_length_suffix)
    then obtain p where "q = p @ b" by (auto simp: suffix_def)
    moreover have "after_first t (c # cs) = Some q"
    proof -
      have "after_first t (c # cs) = Some (drop (length t) (c # cs))" using True by simp
      also have "drop (length t) (c # cs) = q" by (simp only: q) simp
      finally show ?thesis .
    qed
    ultimately show ?thesis by blast
  next
    case False
    then have "a \<noteq> []" using Cons.prems by (auto simp: prefix_def)
    then obtain a' where "a = c # a'" using Cons.prems by (cases a) auto
    with Cons.prems have "cs = a' @ t @ b" by simp
    with Cons.IH obtain r p where "after_first t cs = Some r" "r = p @ b" by blast
    with False show ?thesis by simp
  qed
qed

lemma in_order_append: "in_order ts b \<Longrightarrow> in_order ts (p @ b)"
proof (cases ts)
  case Nil
  then show ?thesis by simp
next
  case (Cons t ts')
  assume "in_order ts b"
  with Cons obtain a c where "b = a @ t @ c" "in_order ts' c" by auto
  then have "p @ b = (p @ a) @ t @ c \<and> in_order ts' c" by simp
  with Cons show ?thesis by (metis in_order.simps(2))
qed

lemma occurs_in_order_iff: "occurs_in_order ts s \<longleftrightarrow> in_order ts s"
proof (induction ts arbitrary: s)
  case Nil
  then show ?case by simp
next
  case (Cons t ts)
  show ?case
  proof
    assume "occurs_in_order (t # ts) s"
    then obtain r where r: "after_first t s = Some r" "occurs_in_order ts r"
      by (auto split: option.splits)
    from after_first_sound [OF r(1)] obtain a where "s = a @ t @ r" by blast
    moreover from r(2) Cons.IH have "in_order ts r" by blast
    ultimately show "in_order (t # ts) s" by auto
  next
    assume "in_order (t # ts) s"
    then obtain a b where ab: "s = a @ t @ b" "in_order ts b" by auto
    from after_first_complete [OF ab(1)] obtain r p where rp: "after_first t s = Some r" "r = p @ b"
      by blast
    from ab(2) rp(2) have "in_order ts r" by (simp add: in_order_append)
    with Cons.IH have "occurs_in_order ts r" by blast
    with rp(1) show "occurs_in_order (t # ts) s" by simp
  qed
qed

lemma in_order_three: "in_order [x, y, z] (p @ x @ q @ y @ r @ z @ s)"
proof -
  have "in_order [z] (r @ z @ s)" by auto
  then have "in_order [y, z] (q @ y @ r @ z @ s)" by (metis in_order.simps(2))
  then show ?thesis by (metis in_order.simps(2))
qed

lemma int_to_string_404: "int_to_string 404 = ''404''"
  by (simp add: int_to_string_def nat_to_string.simps digit_char_def)

section \<open>Properties of the combinators and of the transport\<close>

lemma io_bind_Inr [simp]: "io_bind (Inr x, t) f = (fst (f x), t @ snd (f x))"
  by (simp add: io_bind_def)

lemma io_bind_Inl [simp]: "io_bind (Inl e, t) f = (Inl e, t)"
  by (simp add: io_bind_def)

lemma fst_io_bind: "fst (io_bind m f) = (case fst m of Inl e \<Rightarrow> Inl e | Inr x \<Rightarrow> fst (f x))"
  by (simp add: io_bind_def split: sum.splits)

lemma snd_io_bind: "snd (io_bind m f) = (case fst m of Inl e \<Rightarrow> snd m | Inr x \<Rightarrow> snd m @ snd (f x))"
  by (simp add: io_bind_def split: sum.splits)

lemma fst_io_catch: "fst (io_catch m h) = (case fst m of Inl e \<Rightarrow> fst (h e) | Inr x \<Rightarrow> Inr x)"
  by (simp add: io_catch_def split: sum.splits)

lemma snd_io_catch: "snd (io_catch m h) = (case fst m of Inl e \<Rightarrow> snd m @ snd (h e) | Inr x \<Rightarrow> snd m)"
  by (simp add: io_catch_def split: sum.splits)

lemma get_prop_not_nullish: "\<not> nullish v \<Longrightarrow> get_prop v k = Inr (own_prop v k)"
  by (simp add: get_prop_def)

lemma get_prop_Inr: "get_prop v k = Inr x \<Longrightarrow> \<not> nullish v \<and> x = own_prop v k"
  by (auto simp: get_prop_def split: if_splits)

lemma handleApiErrors_Inr: "handleApiErrors data = Inr u \<longleftrightarrow> \<not> nullish data \<and> \<not> truthy (own_prop data ''error'')"
  by (auto simp: handleApiErrors_def try_bind_def get_prop_def split: sum.splits if_splits)

lemma snd_fetchNamespace:
  "snd (fetchNamespace w tok endpoint options baseUrl) = [Fetch (fetchNamespace_request tok endpoint options baseUrl)]"
  by (simp add: fetchNamespace_def io_fetch_def io_bind_def io_throw_def io_lift_def io_return_def split: sum.splits)

lemma fst_fetchNamespace:
  "fst (fetchNamespace w tok endpoint options baseUrl) =
     (case fetch w (fetchNamespace_request tok endpoint options baseUrl) of
        Inl e \<Rightarrow> Inl e
      | Inr r \<Rightarrow>
          if \<not> ok r then Inl (Error (''Namespace API error: '' @ int_to_string (status r) @ '' '' @ statusText r))
          else (case json r of
                  Inl e \<Rightarrow> Inl e
                | Inr data \<Rightarrow> (case handleApiErrors data of Inl e \<Rightarrow> Inl e | Inr u \<Rightarrow> Inr data)))"
  by (simp add: fetchNamespace_def io_fetch_def io_bind_def io_throw_def io_lift_def io_return_def split: sum.splits)

lemma fetchNamespace_Inr:
  "fst (fetchNamespace w tok endpoint options baseUrl) = Inr data \<Longrightarrow> \<not> nullish data \<and> \<not> truthy (own_prop data ''error'')"
  by (auto simp: fst_fetchNamespace handleApiErrors_Inr split: sum.splits if_splits)

section \<open>Facts about the example environments\<close>

lemma credentials_direct_token:
  "NamespaceConfig.token config = Some t \<Longrightarrow> t \<noteq> [] \<Longrightarrow>
   getAndValidateCredentials w config = (Inr (JStr t), [])"
  by (simp add: getAndValidateCredentials_def string_or_def io_return_def)

lemma token_of_config_token: "NamespaceConfig.token config_token = Some ''secret''"
  by (simp add: config_token_def)

lemma credentials_config_token: "getAndValidateCredentials w config_token = (Inr (JStr ''secret''), [])"
  by (rule credentials_direct_token) (simp_all add: token_of_config_token)

lemma ok_response_fields:
  "ok (ok_response payload)" "json (ok_response payload) = Inr payload" "status (ok_response payload) = 200"
  by (simp_all add: ok_response_def)

lemma fetch_world_answering: "fetch (world_answering r) req = Inr r"
  by (simp add: world_answering_def)

lemma fetchNamespace_world_answering:
  "\<not> nullish payload \<Longrightarrow> \<not> truthy (own_prop payload ''error'') \<Longrightarrow>
   fst (fetchNamespace (world_answering (ok_response payload)) tok endpoint options baseUrl) = Inr payload"
  by (simp add: fst_fetchNamespace fetch_world_answering ok_response_fields handleApiErrors_def
      try_bind_def get_prop_not_nullish)

lemma Date_now_world_answering: "Date_now (world_answering r) k = 0"
  by (simp add: world_answering_def world_offline_def)

section \<open>Credential resolution: the order of the sources\<close>

text \<open>
  Claim C3, as amended. Credential resolution takes \<open>config.token\<close> when it is non-empty, else
  the value of \<open>NSC_TOKEN\<close> when it is non-empty, else the \<open>bearer_token\<close> of the JSON file
  named by \<open>config.tokenFile\<close> or \<open>NSC_TOKEN_FILE\<close>. It throws the error of line 66 (the
  specification's ConfigurationError) when that file is read and parsed to a value other
  than \<open>null\<close> that has no \<open>bearer_token\<close>, and the error of line 91 (ConfigurationError
  again) when all sources are empty.
\<close>

theorem credential_resolution_order:
  "(NamespaceConfig.token config = Some t \<and> t \<noteq> [] \<longrightarrow>
      getAndValidateCredentials w config = (Inr (JStr t), [])) \<and>
   (NamespaceConfig.token config \<in> {None, Some []} \<and> env_var w ''NSC_TOKEN'' = Some t \<and> t \<noteq> [] \<longrightarrow>
      getAndValidateCredentials w config = (Inr (JStr t), [])) \<and>
   (NamespaceConfig.token config \<in> {None, Some []} \<and> env_var w ''NSC_TOKEN'' \<in> {None, Some []} \<and>
    (tokenFile config = Some p \<or>
     tokenFile config \<in> {None, Some []} \<and> env_var w ''NSC_TOKEN_FILE'' = Some p) \<and> p \<noteq> [] \<and>
    readFile w p = Inr content \<and> JSON_parse w content = Inr tokenJson \<and> \<not> nullish tokenJson \<longrightarrow>
      getAndValidateCredentials w config =
        (if truthy (own_prop tokenJson ''bearer_token'')
         then (Inr (own_prop tokenJson ''bearer_token''), [ReadFile p])
         else (Inl (Error (''Token file '' @ p @ '' does not contain a bearer_token'')), [ReadFile p]))) \<and>
   (NamespaceConfig.token config \<in> {None, Some []} \<and> env_var w ''NSC_TOKEN'' \<in> {None, Some []} \<and>
    tokenFile config \<in> {None, Some []} \<and> env_var w ''NSC_TOKEN_FILE'' \<in> {None, Some []} \<longrightarrow>
      getAndValidateCredentials w config =
        (Inl (Error ''Missing Namespace token. Provide token in config, set NSC_TOKEN, or set NSC_TOKEN_FILE environment variable (or provide tokenFile in config).''), []))"
proof (intro conjI impI)
  assume "NamespaceConfig.token config = Some t \<and> t \<noteq> []"
  then show "getAndValidateCredentials w config = (Inr (JStr t), [])"
    by (simp add: getAndValidateCredentials_def string_or_def io_return_def)
next
  assume "NamespaceConfig.token config \<in> {None, Some []} \<and> env_var w ''NSC_TOKEN'' = Some t \<and> t \<noteq> []"
  then show "getAndValidateCredentials w config = (Inr (JStr t), [])"
    by (auto simp: getAndValidateCredentials_def string_or_def io_return_def)
next
  assume a: "NamespaceConfig.token config \<in> {None, Some []} \<and> env_var w ''NSC_TOKEN'' \<in> {None, Some []} \<and>
    (tokenFile config = Some p \<or>
     tokenFile config \<in> {None, Some []} \<and> env_var w ''NSC_TOKEN_FILE'' = Some p) \<and> p \<noteq> [] \<and>
    readFile w p = Inr content \<and> JSON_parse w content = Inr tokenJson \<and> \<not> nullish tokenJson"
  then have direct: "string_or (NamespaceConfig.token config) (string_or (env_var w ''NSC_TOKEN'') []) = []"
    by (auto simp: string_or_def)
  from a have rd: "readFile w p = Inr content" and ps: "JSON_parse w content = Inr tokenJson"
    and nn: "\<not> nullish tokenJson" by blast+
  have load: "loadTokenFromFile w p =
      (if truthy (own_prop tokenJson ''bearer_token'')
       then (Inr (own_prop tokenJson ''bearer_token''), [ReadFile p])
       else (Inl (Error (''Token file '' @ p @ '' does not contain a bearer_token'')), [ReadFile p]))"
    by (simp add: loadTokenFromFile_def fs_readFile_def io_lift_def rd ps get_prop_not_nullish [OF nn]
        io_throw_def io_return_def)
  from a have p: "string_or (tokenFile config) (string_or (env_var w ''NSC_TOKEN_FILE'') []) = p" "p \<noteq> []"
    by (auto simp: string_or_def)
  show "getAndValidateCredentials w config =
        (if truthy (own_prop tokenJson ''bearer_token'')
         then (Inr (own_prop tokenJson ''bearer_token''), [ReadFile p])
         else (Inl (Error (''Token file '' @ p @ '' does not contain a bearer_token'')), [ReadFile p]))"
    by (simp add: getAndValidateCredentials_def direct p load Let_def io_return_def io_throw_def)
next
  assume "NamespaceConfig.token config \<in> {None, Some []} \<and> env_var w ''NSC_TOKEN'' \<in> {None, Some []} \<and>
    tokenFile config \<in> {None, Some []} \<and> env_var w ''NSC_TOKEN_FILE'' \<in> {None, Some []}"
  then show "getAndValidateCredentials w config =
        (Inl (Error ''Missing Namespace token. Provide token in config, set NSC_TOKEN, or set NSC_TOKEN_FILE environment variable (or provide tokenFile in config).''), [])"
    by (auto simp: getAndValidateCredentials_def string_or_def io_return_def io_throw_def)
qed

text \<open>
  Claim C3 as stated fails: a token file that holds \<open>null\<close> lacks a \<open>bearer_token\<close>, but
  reading the property in line 65 throws a \<open>TypeError\<close>, not the error of line 66. The
  declared type of the parsed file, \<open>{ bearer_token?: string }\<close>, leaves \<open>null\<close> out.
\<close>

theorem token_file_null_throws_type_error:
  "own_prop JNull ''bearer_token'' = JUndefined \<and>
   getAndValidateCredentials (world_token_file ''null'' JNull)
       (config_empty\<lparr>tokenFile := Some ''/home/user/token.json''\<rparr>) =
     (Inl (Error (''Cannot read properties of null (reading '' @ [CHR 0x27] @ ''bearer_token'' @ [CHR 0x27] @ '')'')),
      [ReadFile ''/home/user/token.json'']) \<and>
   fst (getAndValidateCredentials (world_token_file ''null'' JNull)
          (config_empty\<lparr>tokenFile := Some ''/home/user/token.json''\<rparr>)) \<noteq>
     Inl (Error ''Token file /home/user/token.json does not contain a bearer_token'')"
  by (simp add: getAndValidateCredentials_def loadTokenFromFile_def fs_readFile_def io_lift_def
      get_prop_def world_token_file_def world_offline_def config_empty_def string_or_def env_var_def
      io_throw_def io_return_def)

text \<open>
  The hypotheses of C3, one environment for each case.
\<close>

theorem credential_resolution_order_witness:
  "getAndValidateCredentials world_offline (config_empty\<lparr>NamespaceConfig.token := Some ''abc''\<rparr>) =
     (Inr (JStr ''abc''), []) \<and>
   getAndValidateCredentials (world_offline\<lparr>process_env := Some [''NSC_TOKEN'' \<mapsto> ''from-env'']\<rparr>) config_empty =
     (Inr (JStr ''from-env''), []) \<and>
   getAndValidateCredentials (world_token_file token_file_text (JObj [(''bearer_token'', JStr ''abc'')]))
       (config_empty\<lparr>tokenFile := Some ''/home/user/token.json''\<rparr>) =
     (Inr (JStr ''abc''), [ReadFile ''/home/user/token.json'']) \<and>
   getAndValidateCredentials (world_token_file ''{}'' (JObj []))
       (config_empty\<lparr>tokenFile := Some ''/home/user/token.json''\<rparr>) =
     (Inl (Error ''Token file /home/user/token.json does not contain a bearer_token''),
      [ReadFile ''/home/user/token.json'']) \<and>
   getAndValidateCredentials world_offline config_empty =
     (Inl (Error ''Missing Namespace token. Provide token in config, set NSC_TOKEN, or set NSC_TOKEN_FILE environment variable (or provide tokenFile in config).''), [])"
proof -
  let ?path = "''/home/user/token.json''"
  let ?cfg = "config_empty\<lparr>tokenFile := Some ?path\<rparr>"
  have no_env: "env_var world_offline k = None" for k
    by (simp add: env_var_def world_offline_def)
  have 1: "getAndValidateCredentials world_offline (config_empty\<lparr>NamespaceConfig.token := Some ''abc''\<rparr>) =
     (Inr (JStr ''abc''), [])"
    using credential_resolution_order
      [of "config_empty\<lparr>NamespaceConfig.token := Some ''abc''\<rparr>" "''abc''" world_offline "[]" "[]" JNull]
    by simp
  have 2: "getAndValidateCredentials (world_offline\<lparr>process_env := Some [''NSC_TOKEN'' \<mapsto> ''from-env'']\<rparr>) config_empty =
     (Inr (JStr ''from-env''), [])"
    using credential_resolution_order
      [of config_empty "''from-env''" "world_offline\<lparr>process_env := Some [''NSC_TOKEN'' \<mapsto> ''from-env'']\<rparr>" "[]" "[]" JNull]
    by (simp add: config_empty_def env_var_def)
  have 3: "getAndValidateCredentials (world_token_file token_file_text (JObj [(''bearer_token'', JStr ''abc'')])) ?cfg =
     (Inr (JStr ''abc''), [ReadFile ?path])"
    using credential_resolution_order
      [of ?cfg "[]" "world_token_file token_file_text (JObj [(''bearer_token'', JStr ''abc'')])"
          ?path token_file_text "JObj [(''bearer_token'', JStr ''abc'')]"]
    by (simp add: config_empty_def env_var_def string_or_def world_token_file_def world_offline_def)
  have 4: "getAndValidateCredentials (world_token_file ''{}'' (JObj [])) ?cfg =
     (Inl (Error ''Token file /home/user/token.json does not contain a bearer_token''), [ReadFile ?path])"
    using credential_resolution_order
      [of ?cfg "[]" "world_token_file ''{}'' (JObj [])" ?path "''{}''" "JObj []"]
    by (simp add: config_empty_def env_var_def string_or_def world_token_file_def world_offline_def)
  have 5: "getAndValidateCredentials world_offline config_empty =
     (Inl (Error ''Missing Namespace token. Provide token in config, set NSC_TOKEN, or set NSC_TOKEN_FILE environment variable (or provide tokenFile in config).''), [])"
    using credential_resolution_order [of config_empty "[]" world_offline "[]" "[]" JNull]
    by (simp add: config_empty_def no_env)
  from 1 2 3 4 5 show ?thesis by blast
qed

section \<open>create: the defaults of the request\<close>

lemma snd_create_try:
  "snd (create_try w config options tok containerName) =
     [Fetch (fetchNamespace_request tok CREATE_INSTANCE
               (post w (create_requestBody w config options containerName)) JUndefined)]"
  by (simp add: create_try_def snd_io_bind snd_fetchNamespace io_lift_def io_throw_def io_return_def
      split: sum.splits)

lemma snd_create:
  "fst (getAndValidateCredentials w config) = Inr tok \<Longrightarrow>
   snd (create w config options) =
     snd (getAndValidateCredentials w config) @
     [Fetch (fetchNamespace_request tok CREATE_INSTANCE
               (post w (create_requestBody w config options
                  (string_or (NamespaceConfig.targetContainerName config) ''main-container'')))
               JUndefined)]"
  by (simp add: create_def Let_def snd_io_bind snd_io_catch snd_create_try io_throw_def split: sum.splits)

text \<open>
  Claim C9. In the request \<open>create\<close> sends, the image reference is \<open>options.image\<close> whenever
  that is present, the empty string included, and \<open>ubuntu:latest\<close> only when it is missing;
  the machine shape, the documented purpose and the container name take their defaults also
  for a falsy configuration value (\<open>0\<close>, \<open>NaN\<close>, the empty string).
\<close>

theorem create_image_default_only_when_missing:
  "(let requestBody = create_requestBody w config options
                        (string_or (NamespaceConfig.targetContainerName config) ''main-container'');
        container = elem (own_prop requestBody ''containers'') 0;
        shape = own_prop requestBody ''shape''
    in own_prop container ''image_ref'' =
         (case Option.bind options image' of None \<Rightarrow> JStr ''ubuntu:latest'' | Some ref \<Rightarrow> JStr ref) \<and>
       (Option.bind options image' = Some [] \<longrightarrow> own_prop container ''image_ref'' = JStr []) \<and>
       (virtualCpu config \<in> {None, Some (Number ''0''), Some (Number ''NaN'')} \<longrightarrow>
          own_prop shape ''virtual_cpu'' = JNum (Number ''2'')) \<and>
       (memoryMegabytes config \<in> {None, Some (Number ''0''), Some (Number ''NaN'')} \<longrightarrow>
          own_prop shape ''memory_megabytes'' = JNum (Number ''4096'')) \<and>
       (machineArch config \<in> {None, Some []} \<longrightarrow> own_prop shape ''machine_arch'' = JStr ''amd64'') \<and>
       (os config \<in> {None, Some []} \<longrightarrow> own_prop shape ''os'' = JStr ''linux'') \<and>
       (documentedPurpose config \<in> {None, Some []} \<longrightarrow>
          own_prop requestBody ''documented_purpose'' = JStr ''ComputeSDK sandbox'') \<and>
       (NamespaceConfig.targetContainerName config \<in> {None, Some []} \<longrightarrow>
          own_prop container ''name'' = JStr ''main-container'')) \<and>
   (fst (getAndValidateCredentials w config) = Inr tok \<longrightarrow>
      snd (create w config options) =
        snd (getAndValidateCredentials w config) @
        [Fetch (fetchNamespace_request tok CREATE_INSTANCE
                  (post w (create_requestBody w config options
                     (string_or (NamespaceConfig.targetContainerName config) ''main-container'')))
                  JUndefined)])"
proof -
  have body: "let requestBody = create_requestBody w config options
                        (string_or (NamespaceConfig.targetContainerName config) ''main-container'');
        container = elem (own_prop requestBody ''containers'') 0;
        shape = own_prop requestBody ''shape''
    in own_prop container ''image_ref'' =
         (case Option.bind options image' of None \<Rightarrow> JStr ''ubuntu:latest'' | Some ref \<Rightarrow> JStr ref) \<and>
       (Option.bind options image' = Some [] \<longrightarrow> own_prop container ''image_ref'' = JStr []) \<and>
       (virtualCpu config \<in> {None, Some (Number ''0''), Some (Number ''NaN'')} \<longrightarrow>
          own_prop shape ''virtual_cpu'' = JNum (Number ''2'')) \<and>
       (memoryMegabytes config \<in> {None, Some (Number ''0''), Some (Number ''NaN'')} \<longrightarrow>
          own_prop shape ''memory_megabytes'' = JNum (Number ''4096'')) \<and>
       (machineArch config \<in> {None, Some []} \<longrightarrow> own_prop shape ''machine_arch'' = JStr ''amd64'') \<and>
       (os config \<in> {None, Some []} \<longrightarrow> own_prop shape ''os'' = JStr ''linux'') \<and>
       (documentedPurpose config \<in> {None, Some []} \<longrightarrow>
          own_prop requestBody ''documented_purpose'' = JStr ''ComputeSDK sandbox'') \<and>
       (NamespaceConfig.targetContainerName config \<in> {None, Some []} \<longrightarrow>
          own_prop container ''name'' = JStr ''main-container'')"
    by (auto simp: create_requestBody_def Let_def string_nullish_or_def string_or_def number_or_def number_falsy_def
        split: option.splits)
  show ?thesis
    using body snd_create [of w config tok options] by blast
qed

text \<open>
  The hypotheses of C9 at an empty image and an empty \<open>machineArch\<close>.
\<close>

theorem create_image_default_only_when_missing_witness:
  "Option.bind (Some \<lparr>image' = Some [], envs = None\<rparr>) image' = Some [] \<and>
   machineArch (config_token\<lparr>machineArch := Some []\<rparr>) \<in> {None, Some []} \<and>
   fst (getAndValidateCredentials world_offline (config_token\<lparr>machineArch := Some []\<rparr>)) = Inr (JStr ''secret'') \<and>
   own_prop (elem (own_prop (create_requestBody world_offline (config_token\<lparr>machineArch := Some []\<rparr>)
                               (Some \<lparr>image' = Some [], envs = None\<rparr>) ''main-container'') ''containers'') 0)
     ''image_ref'' = JStr [] \<and>
   own_prop (own_prop (create_requestBody world_offline (config_token\<lparr>machineArch := Some []\<rparr>)
                               (Some \<lparr>image' = Some [], envs = None\<rparr>) ''main-container'') ''shape'')
     ''machine_arch'' = JStr ''amd64'' \<and>
   snd (create world_offline (config_token\<lparr>machineArch := Some []\<rparr>) (Some \<lparr>image' = Some [], envs = None\<rparr>)) =
     [Fetch (fetchNamespace_request (JStr ''secret'') CREATE_INSTANCE
               (post world_offline
                  (create_requestBody world_offline (config_token\<lparr>machineArch := Some []\<rparr>)
                     (Some \<lparr>image' = Some [], envs = None\<rparr>) ''main-container''))
               JUndefined)]"
proof -
  let ?cfg = "config_token\<lparr>machineArch := Some []\<rparr>"
  have c: "string_or (NamespaceConfig.targetContainerName ?cfg) ''main-container'' = ''main-container''"
    by (simp add: config_token_def config_empty_def string_or_def)
  have h1: "Option.bind (Some \<lparr>image' = Some [], envs = None\<rparr>) image' = Some []"
    by simp
  have h2: "machineArch ?cfg \<in> {None, Some []}"
    by simp
  have g: "getAndValidateCredentials world_offline ?cfg = (Inr (JStr ''secret''), [])"
    by (rule credentials_direct_token) (simp_all add: token_of_config_token)
  then have h3: "fst (getAndValidateCredentials world_offline ?cfg) = Inr (JStr ''secret'')"
    by simp
  show ?thesis
    using h1 h2 h3
      create_image_default_only_when_missing
        [of world_offline ?cfg "Some \<lparr>image' = Some [], envs = None\<rparr>" "JStr ''secret''"]
    by (simp only: c g Let_def snd_conv append_Nil) simp
qed

section \<open>getById: not found and other errors\<close>

lemma fst_getById:
  "fst (getAndValidateCredentials w config) = Inr tok \<Longrightarrow>
   fst (getById w config sid) =
     (case fst (getById_try w config tok sid) of
        Inl e \<Rightarrow> if is_404 e then Inr None
                 else Inl (Error (''Failed to get Namespace instance: '' @ message_of e))
      | Inr found \<Rightarrow> Inr found)"
  by (simp add: getById_def fst_io_bind fst_io_catch io_return_def io_throw_def split: sum.splits)

lemma getById_credentials_fail:
  "fst (getAndValidateCredentials w config) = Inl e \<Longrightarrow> fst (getById w config sid) = Inl e"
  by (simp add: getById_def fst_io_bind)

lemma getById_try_fetch_fails:
  "fst (fetchNamespace w tok DESCRIBE_INSTANCE (post w (JObj [(''instance_id'', JStr sid)])) JUndefined) = Inl e \<Longrightarrow>
   fst (getById_try w config tok sid) = Inl e"
  by (simp add: getById_try_def fst_io_bind)

lemma http_404_is_404:
  "\<not> ok r \<Longrightarrow> status r = 404 \<Longrightarrow>
   is_404 (Error (''Namespace API error: '' @ int_to_string (status r) @ '' '' @ statusText r))"
proof -
  assume "status r = 404"
  then have "''Namespace API error: '' @ int_to_string (status r) @ '' '' @ statusText r =
             ''Namespace API error: '' @ ''404'' @ ('' '' @ statusText r)"
    by (simp add: int_to_string_404)
  then have "\<exists>a b. ''Namespace API error: '' @ int_to_string (status r) @ '' '' @ statusText r = a @ ''404'' @ b"
    by blast
  then show ?thesis by (simp only: is_404.simps str_includes_iff)
qed

text \<open>
  Claim C4, as amended. Once credentials resolve, \<open>getById\<close> returns \<open>null\<close> (here \<open>None\<close>) when
  the remote call fails with HTTP status 404, and every error raised by the remote call or by
  the check of its response that is not an \<open>Error\<close> with \<open>404\<close> in its message propagates,
  wrapped as \<open>Failed to get Namespace instance: <message>\<close>. An error of credential
  resolution propagates as it is.
\<close>

theorem getById_not_found_and_propagation:
  "(fst (getAndValidateCredentials w config) = Inr tok \<and>
    fetch w (fetchNamespace_request tok DESCRIBE_INSTANCE
               (post w (JObj [(''instance_id'', JStr sid)])) JUndefined) = Inr r \<and>
    \<not> ok r \<and> status r = 404 \<longrightarrow>
      fst (getById w config sid) = Inr None) \<and>
   (fst (getAndValidateCredentials w config) = Inr tok \<and>
    fst (getById_try w config tok sid) = Inl e \<and> \<not> is_404 e \<longrightarrow>
      fst (getById w config sid) = Inl (Error (''Failed to get Namespace instance: '' @ message_of e))) \<and>
   (fst (getAndValidateCredentials w config) = Inl e \<longrightarrow> fst (getById w config sid) = Inl e)"
proof (intro conjI impI)
  assume a: "fst (getAndValidateCredentials w config) = Inr tok \<and>
    fetch w (fetchNamespace_request tok DESCRIBE_INSTANCE
               (post w (JObj [(''instance_id'', JStr sid)])) JUndefined) = Inr r \<and>
    \<not> ok r \<and> status r = 404"
  then have "fst (fetchNamespace w tok DESCRIBE_INSTANCE (post w (JObj [(''instance_id'', JStr sid)])) JUndefined) =
      Inl (Error (''Namespace API error: '' @ int_to_string (status r) @ '' '' @ statusText r))"
    by (simp add: fst_fetchNamespace)
  then have "fst (getById_try w config tok sid) =
      Inl (Error (''Namespace API error: '' @ int_to_string (status r) @ '' '' @ statusText r))"
    by (rule getById_try_fetch_fails)
  moreover from a have "\<not> ok r" and "status r = 404"
    by blast+
  then have "is_404 (Error (''Namespace API error: '' @ int_to_string (status r) @ '' '' @ statusText r))"
    by (rule http_404_is_404)
  ultimately show "fst (getById w config sid) = Inr None"
    using a by (simp add: fst_getById)
next
  assume "fst (getAndValidateCredentials w config) = Inr tok \<and>
    fst (getById_try w config tok sid) = Inl e \<and> \<not> is_404 e"
  then show "fst (getById w config sid) = Inl (Error (''Failed to get Namespace instance: '' @ message_of e))"
    by (simp add: fst_getById)
next
  assume "fst (getAndValidateCredentials w config) = Inl e"
  then show "fst (getById w config sid) = Inl e"
    by (rule getById_credentials_fail)
qed

text \<open>
  Claim C4 as stated fails: the remote side answers with HTTP status 200 and an error field
  that says the instance is locked; the id contains \<open>404\<close>, so does the message, and
  \<open>getById\<close> returns \<open>null\<close> instead of propagating the error.
\<close>

theorem getById_null_on_error_other_than_http_404:
  "fst (getById_try (world_answering (ok_response (JObj [(''error'', JStr ''instance inst-4043 is locked'')])))
          config_token (JStr ''secret'') ''inst-4043'') =
     Inl (Error ''Namespace API error: instance inst-4043 is locked'') \<and>
   fst (getById (world_answering (ok_response (JObj [(''error'', JStr ''instance inst-4043 is locked'')])))
          config_token ''inst-4043'') = Inr None"
proof -
  let ?w = "world_answering (ok_response (JObj [(''error'', JStr ''instance inst-4043 is locked'')]))"
  have f: "fst (fetchNamespace ?w (JStr ''secret'') DESCRIBE_INSTANCE
                  (post ?w (JObj [(''instance_id'', JStr ''inst-4043'')])) JUndefined) =
           Inl (Error ''Namespace API error: instance inst-4043 is locked'')"
    by (simp add: fst_fetchNamespace fetch_world_answering ok_response_def handleApiErrors_def
        try_bind_def get_prop_def)
  then have t: "fst (getById_try ?w config_token (JStr ''secret'') ''inst-4043'') =
           Inl (Error ''Namespace API error: instance inst-4043 is locked'')"
    by (rule getById_try_fetch_fails)
  have c: "fst (getAndValidateCredentials ?w config_token) = Inr (JStr ''secret'')"
    by (simp add: credentials_config_token)
  have "fst (getById ?w config_token ''inst-4043'') = Inr None"
    by (simp add: fst_getById [OF c] t)
  with t show ?thesis by blast
qed

text \<open>
  The hypotheses of C4: status 404, status 500, and no credentials.
\<close>

theorem getById_not_found_and_propagation_witness:
  "fst (getById (world_answering \<lparr>ok = False, status = 404, statusText = ''Not Found'', json = Inr JNull\<rparr>)
          config_token ''i-1'') = Inr None \<and>
   fst (getById (world_answering \<lparr>ok = False, status = 500, statusText = ''Internal Server Error'', json = Inr JNull\<rparr>)
          config_token ''i-1'') =
     Inl (Error ''Failed to get Namespace instance: Namespace API error: 500 Internal Server Error'') \<and>
   fst (getById world_offline config_empty ''i-1'') =
     Inl (Error ''Missing Namespace token. Provide token in config, set NSC_TOKEN, or set NSC_TOKEN_FILE environment variable (or provide tokenFile in config).'')"
proof -
  let ?w404 = "world_answering \<lparr>ok = False, status = 404, statusText = ''Not Found'', json = Inr JNull\<rparr>"
  let ?w500 = "world_answering \<lparr>ok = False, status = 500, statusText = ''Internal Server Error'', json = Inr JNull\<rparr>"
  let ?e500 = "Error ''Namespace API error: 500 Internal Server Error''"
  have c: "fst (getAndValidateCredentials (world_answering r) config_token) = Inr (JStr ''secret'')" for r
    by (simp add: credentials_config_token)
  have 1: "fst (getById ?w404 config_token ''i-1'') = Inr None"
    using getById_not_found_and_propagation
      [of ?w404 config_token "JStr ''secret''" "''i-1''"
          "\<lparr>ok = False, status = 404, statusText = ''Not Found'', json = Inr JNull\<rparr>" "Error []"]
    by (simp add: c fetch_world_answering)
  have "int_to_string 500 = ''500''"
    by (simp add: int_to_string_def nat_to_string.simps digit_char_def)
  then have "fst (fetchNamespace ?w500 (JStr ''secret'') DESCRIBE_INSTANCE
                  (post ?w500 (JObj [(''instance_id'', JStr ''i-1'')])) JUndefined) = Inl ?e500"
    by (simp add: fst_fetchNamespace fetch_world_answering)
  then have t: "fst (getById_try ?w500 config_token (JStr ''secret'') ''i-1'') = Inl ?e500"
    by (rule getById_try_fetch_fails)
  have n: "\<not> is_404 ?e500"
    by simp
  have 2: "fst (getById ?w500 config_token ''i-1'') =
     Inl (Error ''Failed to get Namespace instance: Namespace API error: 500 Internal Server Error'')"
    using getById_not_found_and_propagation
      [of ?w500 config_token "JStr ''secret''" "''i-1''"
          "\<lparr>ok = False, status = 500, statusText = ''Internal Server Error'', json = Inr JNull\<rparr>" ?e500]
    by (simp add: c t)
  have m: "fst (getAndValidateCredentials world_offline config_empty) =
     Inl (Error ''Missing Namespace token. Provide token in config, set NSC_TOKEN, or set NSC_TOKEN_FILE environment variable (or provide tokenFile in config).'')"
    by (simp add: getAndValidateCredentials_def world_offline_def config_empty_def
      string_or_def env_var_def io_return_def io_throw_def)
  have 3: "fst (getById world_offline config_empty ''i-1'') =
     Inl (Error ''Missing Namespace token. Provide token in config, set NSC_TOKEN, or set NSC_TOKEN_FILE environment variable (or provide tokenFile in config).'')"
    using getById_not_found_and_propagation
      [of world_offline config_empty JNull "''i-1''" "ok_response JNull"
          "Error ''Missing Namespace token. Provide token in config, set NSC_TOKEN, or set NSC_TOKEN_FILE environment variable (or provide tokenFile in config).''"]
    by (simp add: m)
  from 1 2 3 show ?thesis by blast
qed

text \<open>
  Claim C10. The not-found test of \<open>getById\<close> is a substring test on the message of the caught
  error: whenever the \<open>try\<close> block throws an \<open>Error\<close> whose message contains \<open>404\<close>,
  \<open>getById\<close> returns \<open>null\<close>. This includes an error field in the payload of a successful
  HTTP response whose text contains \<open>404\<close>.
\<close>

theorem getById_not_found_is_substring_test:
  "(fst (getAndValidateCredentials w config) = Inr tok \<and>
    fst (getById_try w config tok sid) = Inl (Error (a @ ''404'' @ b)) \<longrightarrow>
      fst (getById w config sid) = Inr None) \<and>
   (fst (getAndValidateCredentials w config) = Inr tok \<and>
    fetch w (fetchNamespace_request tok DESCRIBE_INSTANCE
               (post w (JObj [(''instance_id'', JStr sid)])) JUndefined) = Inr r \<and>
    ok r \<and> json r = Inr payload \<and> \<not> nullish payload \<and>
    truthy (own_prop payload ''error'') \<and> to_string (own_prop payload ''error'') = a @ ''404'' @ b \<longrightarrow>
      fst (getById w config sid) = Inr None)"
proof (intro conjI impI)
  have sub: "is_404 (Error (x @ ''404'' @ y))" for x y
    by (simp only: is_404.simps str_includes_iff) blast
  {
    assume "fst (getAndValidateCredentials w config) = Inr tok \<and>
      fst (getById_try w config tok sid) = Inl (Error (a @ ''404'' @ b))"
    then have c: "fst (getAndValidateCredentials w config) = Inr tok"
      and t: "fst (getById_try w config tok sid) = Inl (Error (a @ ''404'' @ b))"
      by blast+
    show "fst (getById w config sid) = Inr None"
      by (simp only: fst_getById [OF c] t sub sum.case if_True)
  }
  {
    assume h: "fst (getAndValidateCredentials w config) = Inr tok \<and>
      fetch w (fetchNamespace_request tok DESCRIBE_INSTANCE
               (post w (JObj [(''instance_id'', JStr sid)])) JUndefined) = Inr r \<and>
      ok r \<and> json r = Inr payload \<and> \<not> nullish payload \<and>
      truthy (own_prop payload ''error'') \<and> to_string (own_prop payload ''error'') = a @ ''404'' @ b"
    then have "fst (fetchNamespace w tok DESCRIBE_INSTANCE (post w (JObj [(''instance_id'', JStr sid)])) JUndefined) =
        Inl (Error (''Namespace API error: '' @ a @ ''404'' @ b))"
      by (simp add: fst_fetchNamespace handleApiErrors_def try_bind_def get_prop_not_nullish)
    then have "fst (getById_try w config tok sid) = Inl (Error ((''Namespace API error: '' @ a) @ ''404'' @ b))"
      by (simp add: getById_try_fetch_fails)
    moreover from h have "fst (getAndValidateCredentials w config) = Inr tok"
      by blast
    ultimately show "fst (getById w config sid) = Inr None"
      by (simp only: fst_getById sub sum.case if_True)
  }
qed

text \<open>
  The hypotheses of C10 at a successful response whose error field mentions 404.
\<close>

theorem getById_not_found_is_substring_test_witness:
  "fst (getAndValidateCredentials (world_answering (ok_response (JObj [(''error'', JStr ''upstream returned 404'')])))
          config_token) = Inr (JStr ''secret'') \<and>
   fst (getById_try (world_answering (ok_response (JObj [(''error'', JStr ''upstream returned 404'')])))
          config_token (JStr ''secret'') ''i-1'') =
     Inl (Error ''Namespace API error: upstream returned 404'') \<and>
   fst (getById (world_answering (ok_response (JObj [(''error'', JStr ''upstream returned 404'')])))
          config_token ''i-1'') = Inr None"
proof -
  let ?payload = "JObj [(''error'', JStr ''upstream returned 404'')]"
  let ?w = "world_answering (ok_response ?payload)"
  have c: "fst (getAndValidateCredentials ?w config_token) = Inr (JStr ''secret'')"
    by (simp add: credentials_config_token)
  have "fst (fetchNamespace ?w (JStr ''secret'') DESCRIBE_INSTANCE
               (post ?w (JObj [(''instance_id'', JStr ''i-1'')])) JUndefined) =
        Inl (Error ''Namespace API error: upstream returned 404'')"
    by (simp add: fst_fetchNamespace fetch_world_answering ok_response_fields handleApiErrors_def
        try_bind_def get_prop_def)
  then have t: "fst (getById_try ?w config_token (JStr ''secret'') ''i-1'') =
        Inl (Error ''Namespace API error: upstream returned 404'')"
    by (rule getById_try_fetch_fails)
  have "fst (getById ?w config_token ''i-1'') = Inr None"
    using getById_not_found_is_substring_test
      [of ?w config_token "JStr ''secret''" "''i-1''" "''upstream returned ''" "[]" "ok_response ?payload" ?payload]
    by (simp add: c fetch_world_answering ok_response_fields)
  with c t show ?thesis by blast
qed

section \<open>list: the entries kept\<close>












section \<open>destroy: failures become warnings\<close>

lemma destroy_try_cases:
  "destroy_try w config tok sid =
     (case fst (fetchNamespace w tok DESTROY_INSTANCE
                  (post w (destroy_requestBody config sid))
                  JUndefined) of
        Inl e \<Rightarrow> (Inl e, [Fetch (fetchNamespace_request tok DESTROY_INSTANCE
                  (post w (destroy_requestBody config sid))
                  JUndefined)])
      | Inr data \<Rightarrow> (Inr (), [Fetch (fetchNamespace_request tok DESTROY_INSTANCE
                  (post w (destroy_requestBody config sid))
                  JUndefined)]))"
proof -
  let ?call = "fetchNamespace w tok DESTROY_INSTANCE
                  (post w (destroy_requestBody config sid))
                  JUndefined"
  show ?thesis
  proof (cases "fst ?call")
    case (Inl e)
    then show ?thesis
      by (simp add: destroy_try_def io_bind_def snd_fetchNamespace)
  next
    case (Inr data)
    then have "\<not> nullish data" and "\<not> truthy (own_prop data ''error'')"
      using fetchNamespace_Inr by blast+
    with Inr show ?thesis
      by (simp add: destroy_try_def io_bind_def snd_fetchNamespace get_prop_not_nullish io_lift_def io_return_def)
  qed
qed

text \<open>
  Claim C1, as amended. For every configuration whose credentials resolve and every sandbox
  id, \<open>destroy\<close> returns normally. It sends one request; when the remote call fails
  (transport exception, error status or error field in the payload) the failure is logged
  as one warning carrying its message, and nothing else is logged.
\<close>

theorem destroy_returns_once_credentials_resolve:
  assumes "fst (getAndValidateCredentials w config) = Inr tok"
  shows "fst (destroy w config sid) = Inr () \<and>
         snd (destroy w config sid) =
           snd (getAndValidateCredentials w config) @
           Fetch (fetchNamespace_request tok DESTROY_INSTANCE
                    (post w (destroy_requestBody config sid))
                    JUndefined) #
           (case fst (fetchNamespace w tok DESTROY_INSTANCE
                        (post w (destroy_requestBody config sid))
                        JUndefined) of
              Inl e \<Rightarrow> [Warn (''Namespace destroy warning: '' @ message_of e)]
            | Inr data \<Rightarrow> [])"
  using assms
  by (simp add: destroy_def io_bind_def io_catch_def destroy_try_cases console_warn_def split: sum.splits)

text \<open>
  Claim C1 as stated fails: credentials are resolved before the \<open>try\<close> block, so with no
  token in the configuration, the environment or a token file, \<open>destroy\<close> raises.
\<close>

theorem destroy_raises_without_credentials:
  "fst (destroy world_offline config_empty ''i-1'') =
     Inl (Error ''Missing Namespace token. Provide token in config, set NSC_TOKEN, or set NSC_TOKEN_FILE environment variable (or provide tokenFile in config).'')"
  by (simp add: destroy_def getAndValidateCredentials_def world_offline_def config_empty_def
      string_or_def env_var_def io_bind_def io_return_def io_throw_def)

text \<open>
  The hypothesis of C1 at a configuration with a token: the remote side unreachable, and the
  remote side answering with an error field.
\<close>

theorem destroy_returns_once_credentials_resolve_witness:
  "fst (getAndValidateCredentials world_offline config_token) = Inr (JStr ''secret'') \<and>
   fst (destroy world_offline config_token ''i-1'') = Inr () \<and>
   snd (destroy world_offline config_token ''i-1'') =
     [Fetch (fetchNamespace_request (JStr ''secret'') DESTROY_INSTANCE
               (post world_offline (destroy_requestBody config_token ''i-1'')) JUndefined),
      Warn ''Namespace destroy warning: fetch failed''] \<and>
   fst (destroy (world_answering (ok_response (JObj [(''error'', JStr ''instance is gone'')]))) config_token ''i-1'') =
     Inr () \<and>
   Warn ''Namespace destroy warning: Namespace API error: instance is gone'' \<in>
     set (snd (destroy (world_answering (ok_response (JObj [(''error'', JStr ''instance is gone'')])))
                 config_token ''i-1''))"
proof -
  let ?w = "world_answering (ok_response (JObj [(''error'', JStr ''instance is gone'')]))"
  have h: "fst (getAndValidateCredentials w config_token) = Inr (JStr ''secret'')" for w
    by (simp add: credentials_config_token)
  have f: "fetch world_offline = (\<lambda>req. Inl (Error ''fetch failed''))"
    by (simp add: world_offline_def)
  have g: "fst (fetchNamespace ?w tok endpoint options baseUrl) =
      Inl (Error ''Namespace API error: instance is gone'')" for tok endpoint options baseUrl
    by (simp add: fst_fetchNamespace fetch_world_answering ok_response_fields handleApiErrors_def
        try_bind_def get_prop_def)
  have 1: "fst (destroy world_offline config_token ''i-1'') = Inr () \<and>
   snd (destroy world_offline config_token ''i-1'') =
     [Fetch (fetchNamespace_request (JStr ''secret'') DESTROY_INSTANCE
               (post world_offline (destroy_requestBody config_token ''i-1'')) JUndefined),
      Warn ''Namespace destroy warning: fetch failed'']"
    using destroy_returns_once_credentials_resolve [OF h, of world_offline "''i-1''"]
    by (simp add: fst_fetchNamespace f credentials_config_token)
  have 2: "fst (destroy ?w config_token ''i-1'') = Inr () \<and>
   Warn ''Namespace destroy warning: Namespace API error: instance is gone'' \<in>
     set (snd (destroy ?w config_token ''i-1''))"
    using destroy_returns_once_credentials_resolve [OF h, of ?w "''i-1''"]
    by (simp add: g)
  from h 1 2 show ?thesis by blast
qed

section \<open>runCommand: the composed command\<close>

lemma runCommand_try_cases:
  "runCommand_try w sb command opts st =
     (case fst (fetchNamespace w (NamespaceSandbox.token sb) RUN_COMMAND_SYNC
                  (post w (runCommand_requestBody sb (compose_command w command opts)))
                  (commandServiceEndpoint sb)) of
        Inl e \<Rightarrow>
          (Inl e, [Fetch (fetchNamespace_request (NamespaceSandbox.token sb) RUN_COMMAND_SYNC
                    (post w (runCommand_requestBody sb (compose_command w command opts)))
                    (commandServiceEndpoint sb))])
      | Inr result \<Rightarrow>
          (Inr \<lparr>stdout = decodeBase64 w (own_prop result ''stdout''),
                stderr = decodeBase64 w (own_prop result ''stderr''),
                exitCode = (if nullish (own_prop result ''exitCode'') then JNum (Number ''0'')
                            else own_prop result ''exitCode''),
                durationMs = Date_now w 1 - st\<rparr>,
           [Fetch (fetchNamespace_request (NamespaceSandbox.token sb) RUN_COMMAND_SYNC
                    (post w (runCommand_requestBody sb (compose_command w command opts)))
                    (commandServiceEndpoint sb))]))"
proof -
  let ?call = "fetchNamespace w (NamespaceSandbox.token sb) RUN_COMMAND_SYNC
                  (post w (runCommand_requestBody sb (compose_command w command opts)))
                  (commandServiceEndpoint sb)"
  show ?thesis
  proof (cases "fst ?call")
    case (Inl e)
    then show ?thesis
      by (simp add: runCommand_try_def io_bind_def snd_fetchNamespace)
  next
    case (Inr result)
    then have "\<not> nullish result"
      using fetchNamespace_Inr by blast
    with Inr show ?thesis
      by (simp add: runCommand_try_def io_bind_def snd_fetchNamespace get_prop_not_nullish io_lift_def io_return_def)
  qed
qed

lemma snd_runCommand:
  "truthy (commandServiceEndpoint sb) \<Longrightarrow>
   snd (runCommand w sb command opts) =
     [Fetch (fetchNamespace_request (NamespaceSandbox.token sb) RUN_COMMAND_SYNC
               (post w (runCommand_requestBody sb (compose_command w command opts)))
               (commandServiceEndpoint sb))]"
  by (simp add: runCommand_def Let_def io_catch_def runCommand_try_cases io_throw_def split: sum.splits)

lemma fst_runCommand:
  "truthy (commandServiceEndpoint sb) \<Longrightarrow>
   fst (runCommand w sb command opts) =
     (case fst (fetchNamespace w (NamespaceSandbox.token sb) RUN_COMMAND_SYNC
                  (post w (runCommand_requestBody sb (compose_command w command opts)))
                  (commandServiceEndpoint sb)) of
        Inl e \<Rightarrow> Inl (Error (''Namespace command execution failed: '' @ message_of e))
      | Inr result \<Rightarrow>
          Inr \<lparr>stdout = decodeBase64 w (own_prop result ''stdout''),
               stderr = decodeBase64 w (own_prop result ''stderr''),
               exitCode = (if nullish (own_prop result ''exitCode'') then JNum (Number ''0'')
                           else own_prop result ''exitCode''),
               durationMs = Date_now w 1 - Date_now w 0\<rparr>)"
  by (simp add: runCommand_def Let_def io_catch_def runCommand_try_cases io_throw_def split: sum.splits)

text \<open>
  Claim C2, as amended. For \<open>env = {FOO: "bar"}\<close> and \<open>cwd = "/tmp"\<close> the composed command is
  \<open>cd <escaped /tmp> && FOO=<escaped bar> <command>\<close> (wrapped in \<open>nohup ... > /dev/null 2>&1 &\<close>
  when \<open>background\<close> is set): the change of directory comes first, then the assignment,
  then the original command. It is the third element of the \<open>sh -c\<close> command in the one
  request \<open>runCommand\<close> sends.
\<close>

theorem runCommand_composed_command:
  "compose_command w command (Some \<lparr>env = Some [(''FOO'', ''bar'')], cwd = Some ''/tmp'', background = bg\<rparr>) =
     (if bg = Some True then ''nohup '' else []) @
     ''cd '' @ escapeShellArg w ''/tmp'' @ '' && '' @ ''FOO='' @ escapeShellArg w ''bar'' @ '' '' @ command @
     (if bg = Some True then '' > /dev/null 2>&1 &'' else []) \<and>
   occurs_in_order [''cd '' @ escapeShellArg w ''/tmp'', ''FOO='' @ escapeShellArg w ''bar'', command]
     (compose_command w command (Some \<lparr>env = Some [(''FOO'', ''bar'')], cwd = Some ''/tmp'', background = bg\<rparr>)) \<and>
   (truthy (commandServiceEndpoint sb) \<longrightarrow>
    snd (runCommand w sb command (Some \<lparr>env = Some [(''FOO'', ''bar'')], cwd = Some ''/tmp'', background = bg\<rparr>)) =
      [Fetch (fetchNamespace_request (NamespaceSandbox.token sb) RUN_COMMAND_SYNC
                (post w (runCommand_requestBody sb
                   (compose_command w command (Some \<lparr>env = Some [(''FOO'', ''bar'')], cwd = Some ''/tmp'', background = bg\<rparr>))))
                (commandServiceEndpoint sb))])"
proof -
  let ?opts = "Some \<lparr>env = Some [(''FOO'', ''bar'')], cwd = Some ''/tmp'', background = bg\<rparr>"
  let ?cd = "''cd '' @ escapeShellArg w ''/tmp''"
  let ?assign = "''FOO='' @ escapeShellArg w ''bar''"
  have eq: "compose_command w command ?opts =
     (if bg = Some True then ''nohup '' else []) @
     ''cd '' @ escapeShellArg w ''/tmp'' @ '' && '' @ ''FOO='' @ escapeShellArg w ''bar'' @ '' '' @ command @
     (if bg = Some True then '' > /dev/null 2>&1 &'' else [])"
    by (simp add: compose_command_def)
  have "compose_command w command ?opts =
     (if bg = Some True then ''nohup '' else []) @ ?cd @ '' && '' @ ?assign @ '' '' @ command @
     (if bg = Some True then '' > /dev/null 2>&1 &'' else [])"
    by (simp add: eq)
  then have "in_order [?cd, ?assign, command] (compose_command w command ?opts)"
    by (simp only: in_order_three)
  then have ord: "occurs_in_order [?cd, ?assign, command] (compose_command w command ?opts)"
    by (simp only: occurs_in_order_iff)
  show ?thesis
    using eq ord snd_runCommand [of sb w command ?opts] by blast
qed

text \<open>
  Claim C2 as stated fails: in the composed command nothing that follows \<open>FOO=bar\<close>
  contains \<open>cd\<close>. The environment prefix is applied first and the directory change is then
  put in front of it.
\<close>

theorem env_assignment_not_before_cd:
  "compose_command world_offline ''ls'' (Some \<lparr>env = Some [(''FOO'', ''bar'')], cwd = Some ''/tmp'', background = None\<rparr>) =
     ''cd /tmp && FOO=bar ls'' \<and>
   \<not> occurs_in_order [''FOO=bar'', ''cd'', ''ls'']
     (compose_command world_offline ''ls'' (Some \<lparr>env = Some [(''FOO'', ''bar'')], cwd = Some ''/tmp'', background = None\<rparr>))"
  by (simp add: compose_command_def world_offline_def)

text \<open>
  The hypothesis of C2 at a sandbox with a command endpoint: the request that is sent.
\<close>

theorem runCommand_composed_command_witness:
  "truthy (commandServiceEndpoint sandbox_example) \<and>
   snd (runCommand world_offline sandbox_example ''ls''
          (Some \<lparr>env = Some [(''FOO'', ''bar'')], cwd = Some ''/tmp'', background = None\<rparr>)) =
     [Fetch \<lparr>http_method = Some ''POST'',
             headers = [(''Content-Type'', ''application/json''), (''Authorization'', ''Bearer secret'')],
             body = Some (JSON_stringify world_offline
                      (runCommand_requestBody sandbox_example ''cd /tmp && FOO=bar ls'') 0),
             url = ''https://cmd.example/namespace.cloud.compute.v1beta.CommandService/RunCommandSync''\<rparr>]"
proof -
  have h: "truthy (commandServiceEndpoint sandbox_example)"
    by (simp add: sandbox_example_def)
  have e: "escapeShellArg world_offline = (\<lambda>arg. arg)"
    by (simp add: world_offline_def)
  show ?thesis
    using h runCommand_composed_command [of world_offline "''ls''" None sandbox_example]
    by (simp add: e fetchNamespace_request_def post_def spread_def RUN_COMMAND_SYNC_def sandbox_example_def)
qed

section \<open>runCommand: exit code, failures and decoding\<close>

lemma Buffer_from_base64_hello: "Buffer_from_base64 ''aGVsbG8='' = [104, 101, 108, 108, 111]"
  by code_simp

lemma Buffer_from_base64_invalid: "Buffer_from_base64 ''!!!'' = []"
  by code_simp

lemma chars_hello:
  "char_of (104 :: nat) = CHR ''h''" "char_of (101 :: nat) = CHR ''e''"
  "char_of (108 :: nat) = CHR ''l''" "char_of (111 :: nat) = CHR ''o''"
  by code_simp+

lemma decodeBase64_hello: "decodeBase64 w (JStr ''aGVsbG8='') = JStr ''hello''"
  by (simp add: decodeBase64_def Buffer_toString_def Buffer_from_base64_hello chars_hello)

lemma decodeBase64_invalid: "decodeBase64 w (JStr ''!!!'') = JStr []"
  by (simp add: decodeBase64_def Buffer_toString_def Buffer_from_base64_invalid)

lemma decodeBase64_missing: "decodeBase64 w JUndefined = JStr []"
  by (simp add: decodeBase64_def)

text \<open>
  Claim C7. When the remote call returns a payload without an exit code, the result has
  \<open>exitCode = 0\<close>; an exit code in the payload, zero or not, is returned in the result; a
  failure of the remote call is thrown again as \<open>Namespace command execution failed: <message>\<close>
  (the specification's CommandExecutionError).
\<close>

theorem runCommand_exit_code_is_data:
  "(truthy (commandServiceEndpoint sb) \<and>
    fst (fetchNamespace w (NamespaceSandbox.token sb) RUN_COMMAND_SYNC
           (post w (runCommand_requestBody sb (compose_command w command opts)))
           (commandServiceEndpoint sb)) = Inr result \<and>
    own_prop result ''exitCode'' = JUndefined \<longrightarrow>
      fst (runCommand w sb command opts) =
        Inr \<lparr>stdout = decodeBase64 w (own_prop result ''stdout''),
             stderr = decodeBase64 w (own_prop result ''stderr''),
             exitCode = JNum (Number ''0''),
             durationMs = Date_now w 1 - Date_now w 0\<rparr>) \<and>
   (truthy (commandServiceEndpoint sb) \<and>
    fst (fetchNamespace w (NamespaceSandbox.token sb) RUN_COMMAND_SYNC
           (post w (runCommand_requestBody sb (compose_command w command opts)))
           (commandServiceEndpoint sb)) = Inr result \<and>
    own_prop result ''exitCode'' = JNum n \<longrightarrow>
      fst (runCommand w sb command opts) =
        Inr \<lparr>stdout = decodeBase64 w (own_prop result ''stdout''),
             stderr = decodeBase64 w (own_prop result ''stderr''),
             exitCode = JNum n,
             durationMs = Date_now w 1 - Date_now w 0\<rparr>) \<and>
   (truthy (commandServiceEndpoint sb) \<and>
    fst (fetchNamespace w (NamespaceSandbox.token sb) RUN_COMMAND_SYNC
           (post w (runCommand_requestBody sb (compose_command w command opts)))
           (commandServiceEndpoint sb)) = Inl e \<longrightarrow>
      fst (runCommand w sb command opts) =
        Inl (Error (''Namespace command execution failed: '' @ message_of e)))"
  by (simp add: fst_runCommand)

text \<open>
  The hypotheses of C7: a payload without exit code, a payload with exit code 2, no connection.
\<close>

theorem runCommand_exit_code_is_data_witness:
  "truthy (commandServiceEndpoint sandbox_example) \<and>
   fst (runCommand (world_answering (ok_response (JObj [(''stdout'', JStr ''aGVsbG8='')]))) sandbox_example ''ls'' None) =
     Inr \<lparr>stdout = JStr ''hello'', stderr = JStr [], exitCode = JNum (Number ''0''), durationMs = 0\<rparr> \<and>
   fst (runCommand (world_answering (ok_response (JObj [(''exitCode'', JNum (Number ''2''))]))) sandbox_example ''ls'' None) =
     Inr \<lparr>stdout = JStr [], stderr = JStr [], exitCode = JNum (Number ''2''), durationMs = 0\<rparr> \<and>
   fst (runCommand world_offline sandbox_example ''ls'' None) =
     Inl (Error ''Namespace command execution failed: fetch failed'')"
proof -
  let ?p1 = "JObj [(''stdout'', JStr ''aGVsbG8='')]"
  let ?p2 = "JObj [(''exitCode'', JNum (Number ''2''))]"
  have h: "truthy (commandServiceEndpoint sandbox_example)"
    by (simp add: sandbox_example_def)
  have f1: "fst (fetchNamespace (world_answering (ok_response ?p1)) tok endpoint options baseUrl) = Inr ?p1"
    for tok endpoint options baseUrl
    by (simp add: fetchNamespace_world_answering)
  have f2: "fst (fetchNamespace (world_answering (ok_response ?p2)) tok endpoint options baseUrl) = Inr ?p2"
    for tok endpoint options baseUrl
    by (simp add: fetchNamespace_world_answering)
  have f3: "fst (fetchNamespace world_offline tok endpoint options baseUrl) = Inl (Error ''fetch failed'')"
    for tok endpoint options baseUrl
    by (simp add: fst_fetchNamespace world_offline_def)
  have 1: "fst (runCommand (world_answering (ok_response ?p1)) sandbox_example ''ls'' None) =
     Inr \<lparr>stdout = JStr ''hello'', stderr = JStr [], exitCode = JNum (Number ''0''), durationMs = 0\<rparr>"
    using runCommand_exit_code_is_data
      [of sandbox_example "world_answering (ok_response ?p1)" "''ls''" None ?p1 "Number ''0''" "Error []"]
    by (simp add: h f1 decodeBase64_hello decodeBase64_missing Date_now_world_answering)
  have 2: "fst (runCommand (world_answering (ok_response ?p2)) sandbox_example ''ls'' None) =
     Inr \<lparr>stdout = JStr [], stderr = JStr [], exitCode = JNum (Number ''2''), durationMs = 0\<rparr>"
    using runCommand_exit_code_is_data
      [of sandbox_example "world_answering (ok_response ?p2)" "''ls''" None ?p2 "Number ''2''" "Error []"]
    by (simp add: h f2 decodeBase64_missing Date_now_world_answering)
  have 3: "fst (runCommand world_offline sandbox_example ''ls'' None) =
     Inl (Error ''Namespace command execution failed: fetch failed'')"
    using runCommand_exit_code_is_data
      [of sandbox_example world_offline "''ls''" None JNull "Number ''0''" "Error ''fetch failed''"]
    by (simp add: h f3)
  from h 1 2 3 show ?thesis by blast
qed

text \<open>
  Claim C5 at a payload whose \<open>stdout\<close> is not base64. \<open>stderr\<close> is decoded on its own
  (\<open>aGVsbG8=\<close> gives \<open>hello\<close>) and nothing is raised, but \<open>stdout = "!!!"\<close> comes back as the
  empty string, not verbatim: \<open>Buffer.from\<close> does not throw on a string, so the \<open>catch\<close>
  that would return the raw value is never entered for one.
\<close>

theorem runCommand_invalid_base64_is_not_returned_verbatim:
  "fst (runCommand
          (world_answering (ok_response
             (JObj [(''stdout'', JStr ''!!!''), (''stderr'', JStr ''aGVsbG8=''), (''exitCode'', JNum (Number ''0''))])))
          sandbox_example ''ls'' None) =
     Inr \<lparr>stdout = JStr [], stderr = JStr ''hello'', exitCode = JNum (Number ''0''), durationMs = 0\<rparr>"
proof -
  let ?p = "JObj [(''stdout'', JStr ''!!!''), (''stderr'', JStr ''aGVsbG8=''), (''exitCode'', JNum (Number ''0''))]"
  have h: "truthy (commandServiceEndpoint sandbox_example)"
    by (simp add: sandbox_example_def)
  have f: "fst (fetchNamespace (world_answering (ok_response ?p)) tok endpoint options baseUrl) = Inr ?p"
    for tok endpoint options baseUrl
    by (simp add: fetchNamespace_world_answering)
  show ?thesis
    by (simp add: fst_runCommand [OF h] f decodeBase64_hello decodeBase64_invalid Date_now_world_answering)
qed

section \<open>Unsupported operations\<close>

text \<open>
  Claim C8. For every sandbox record and all arguments, \<open>runCode\<close> and \<open>getUrl\<close> throw their
  \<open>Error\<close> (the specification's UnsupportedOperationError) and have no effect: no request
  is sent, no file read, nothing logged.
\<close>

theorem unsupported_operations:
  "runCode sb code runtime config =
     (Inl (Error ''Namespace provider does not support runCode. Use runCommand instead.''), []) \<and>
   getUrl sb options = (Inl (Error ''Namespace provider does not support getUrl.''), [])"
  by (simp add: runCode_def getUrl_def io_throw_def)

end
